theory Spec2Isabelle
  imports Complex_Main "HOL-Library.Multiset"
begin

section \<open>Data model (paila/models.py)\<close>

text \<open>
  \<^verbatim>\<open>class Severity(str, Enum)\<close>: five members whose values are the lower-case strings
  returned by \<open>value\<close>. A member hashes and compares as its value, so a dictionary keyed by
  members is also indexed by the plain strings.
\<close>

datatype Severity = CRITICAL | HIGH | MEDIUM | LOW | INFO

fun "value" :: "Severity \<Rightarrow> string" where
  "value CRITICAL = ''critical''"
| "value HIGH = ''high''"
| "value MEDIUM = ''medium''"
| "value LOW = ''low''"
| "value INFO = ''info''"

text \<open>The values a \<^verbatim>\<open>metadata\<close> dictionary of an issue holds in this code base.\<close>

datatype meta_value = MInt int | MStr string | MBool bool

text \<open>
  \<^verbatim>\<open>@dataclass class Issue\<close>. The field \<^verbatim>\<open>type\<close> is \<open>itype\<close>, \<^verbatim>\<open>file\<close> is \<open>ifile\<close>
  and \<^verbatim>\<open>code\<close> is \<open>icode\<close> here (the plain names are taken); the dictionary
  \<^verbatim>\<open>metadata\<close> is an association list in insertion order.
\<close>

record Issue =
  itype :: string
  severity :: Severity
  ifile :: string
  line :: int
  message :: string
  icode :: string
  column :: int
  end_line :: "int option"
  end_column :: "int option"
  suggestion :: string
  rule :: string
  ai_explanation :: "string option"
  ai_fix :: "string option"
  metadata :: "(string \<times> meta_value) list"

text \<open>
  \<^verbatim>\<open>@dataclass class Metrics\<close>. The fields \<^verbatim>\<open>functions\<close> and \<^verbatim>\<open>classes\<close> are \<open>num_functions\<close> and
  \<open>num_classes\<close>, and \<^verbatim>\<open>max_complexity\<close> is \<open>max_complexity_metric\<close> (the configuration has a
  field of that name too). The float fields are rationals here; every value the
  definitions below store in them is given where it is stored.
\<close>

record Metrics =
  lines_of_code :: int
  total_lines :: int
  blank_lines :: int
  comment_lines :: int
  num_functions :: int
  num_classes :: int
  avg_complexity :: rat
  max_complexity_metric :: int
  maintainability_index :: rat
  comment_ratio :: rat
  duplication_ratio :: rat

text \<open>\<^verbatim>\<open>Metrics()\<close>: the dataclass defaults.\<close>

definition Metrics_default :: Metrics where
  "Metrics_default =
     \<lparr>lines_of_code = 0, total_lines = 0, blank_lines = 0, comment_lines = 0,
      num_functions = 0, num_classes = 0, avg_complexity = 0, max_complexity_metric = 0,
      maintainability_index = 100, comment_ratio = 0, duplication_ratio = 0\<rparr>"

text \<open>\<^verbatim>\<open>@dataclass class FileResult\<close>; its field \<^verbatim>\<open>file\<close> is \<open>rfile\<close>.\<close>

record FileResult =
  rfile :: string
  issues :: "Issue list"
  metrics :: "Metrics option"
  skipped :: bool
  error :: "string option"

text \<open>
  \<^verbatim>\<open>FileResult.score\<close>: the dictionary \<^verbatim>\<open>severity_deductions\<close> and the loop
  \<^verbatim>\<open>for issue in self.issues: score -= severity_deductions.get(issue.severity, 0)\<close>,
  then \<^verbatim>\<open>max(0, min(100, score))\<close>.
\<close>

fun severity_deductions :: "Severity \<Rightarrow> int" where
  "severity_deductions CRITICAL = 15"
| "severity_deductions HIGH = 10"
| "severity_deductions MEDIUM = 5"
| "severity_deductions LOW = 2"
| "severity_deductions INFO = 0"

fun score_loop :: "Issue list \<Rightarrow> int \<Rightarrow> int" where
  "score_loop [] sc = sc"
| "score_loop (i # is) sc = score_loop is (sc - severity_deductions (severity i))"

definition score :: "FileResult \<Rightarrow> int" where
  "score fr = max 0 (min 100 (score_loop (issues fr) 100))"

text \<open>\<^verbatim>\<open>FileResult.grade\<close>: the chain of thresholds on \<open>score\<close>.\<close>

definition grade :: "FileResult \<Rightarrow> string" where
  "grade fr =
     (let sc = score fr in
      if sc \<ge> 90 then ''A''
      else if sc \<ge> 80 then ''B''
      else if sc \<ge> 70 then ''C''
      else if sc \<ge> 60 then ''D''
      else ''F'')"

section \<open>Strings (the operations of \<^verbatim>\<open>str\<close> the code uses)\<close>

text \<open>
  A text is a list of characters with code points 0 to 255, one \<open>char\<close> each.
  \<open>is_space\<close> lists the characters of that range for which Python's \<^verbatim>\<open>str.isspace()\<close>
  holds: the ones \<^verbatim>\<open>str.strip()\<close> removes and \<^verbatim>\<open>\s\<close> matches (tab, line feed, vertical
  tab, form feed, carriage return, the separators 28 to 31, the blank, next line 133 and
  the no-break space 160).
\<close>

definition is_space :: "char \<Rightarrow> bool" where
  "is_space c = ((of_char c :: nat) \<in> {9, 10, 11, 12, 13, 28, 29, 30, 31, 32, 133, 160})"

definition strip :: "string \<Rightarrow> string" where
  "strip s = rev (dropWhile is_space (rev (dropWhile is_space s)))"

definition startswith :: "string \<Rightarrow> string \<Rightarrow> bool" where
  "startswith s p = (take (length p) s = p)"

text \<open>\<^verbatim>\<open>p in s\<close> on strings: \<open>p\<close> occurs in \<open>s\<close> as a contiguous run.\<close>

fun contains :: "string \<Rightarrow> string \<Rightarrow> bool" where
  "contains [] p = (p = [])"
| "contains (c # cs) p = (startswith (c # cs) p \<or> contains cs p)"

text \<open>
  \<^verbatim>\<open>str.lower()\<close> on that range: the letters A to Z and the capital letters 192 to 222
  (without the multiplication sign 215) move up by 32, every other character stays.
\<close>

definition lower_char :: "char \<Rightarrow> char" where
  "lower_char c =
     (let n = (of_char c :: nat) in
      if (65 \<le> n \<and> n \<le> 90) \<or> (192 \<le> n \<and> n \<le> 222 \<and> n \<noteq> 215)
      then char_of (n + 32) else c)"

definition lower :: "string \<Rightarrow> string" where
  "lower s = map lower_char s"

text \<open>\<^verbatim>\<open>s.split(d)\<close> for a one-character separator: never the empty list.\<close>

fun split :: "char \<Rightarrow> string \<Rightarrow> string list" where
  "split d [] = [[]]"
| "split d (c # cs) =
     (if c = d then [] # split d cs
      else (let r = split d cs in (c # hd r) # tl r))"

definition split_lines :: "string \<Rightarrow> string list" where
  "split_lines code = split (CHR 0x0A) code"

text \<open>\<^verbatim>\<open>sep.join(parts)\<close>.\<close>

fun join :: "string \<Rightarrow> string list \<Rightarrow> string" where
  "join sep [] = []"
| "join sep [p] = p"
| "join sep (p # q # ps) = p @ sep @ join sep (q # ps)"

text \<open>\<^verbatim>\<open>str(n)\<close> for an integer, as the f-strings of the messages print it.\<close>

fun digits :: "nat \<Rightarrow> string" where
  "digits n = (if n < 10 then [char_of (48 + n)] else digits (n div 10) @ [char_of (48 + n mod 10)])"

definition str_int :: "int \<Rightarrow> string" where
  "str_int i = (if i < 0 then CHR ''-'' # digits (nat (- i)) else digits (nat i))"

text \<open>\<^verbatim>\<open>d.get(k, default)\<close> on a dictionary given as an association list.\<close>

definition dict_get :: "('k \<times> 'v) list \<Rightarrow> 'k \<Rightarrow> 'v \<Rightarrow> 'v" where
  "dict_get d k dflt = (case map_of d k of None \<Rightarrow> dflt | Some v \<Rightarrow> v)"

text \<open>\<^verbatim>\<open>xs.index(x)\<close>: the first position of \<open>x\<close>; \<open>None\<close> where Python raises ValueError.\<close>

fun index :: "'a list \<Rightarrow> 'a \<Rightarrow> nat option" where
  "index [] x = None"
| "index (y # ys) x = (if y = x then Some 0 else map_option Suc (index ys x))"

section \<open>Errors\<close>

text \<open>
  The exceptions the code raises or meets, all subclasses of \<^verbatim>\<open>Exception\<close>. A raise is
  the \<open>Inl\<close> of a result; \<^verbatim>\<open>except Exception\<close> catches every one of them. \<open>OSError\<close>
  stands for an error of the operating system other than the two named before it.
\<close>

datatype error =
    FileNotFoundError string
  | NotADirectoryError string
  | OSError
  | UnicodeDecodeError
  | SyntaxError
  | MemoryError
  | RecursionError
  | ValueError string
  | Exception string

section \<open>Configuration (paila/config.py)\<close>

text \<open>
  \<^verbatim>\<open>@dataclass class Config\<close>, the fields the analysis core reads. \<^verbatim>\<open>min_severity\<close> is a
  string, as declared (\<^verbatim>\<open>min_severity: str = "info"\<close>).
\<close>

record Config =
  analyzers :: "string list"
  min_severity :: string
  max_complexity :: int
  max_nesting_depth :: int
  max_function_lines :: int
  max_file_lines :: int
  max_line_length :: int
  max_parameters :: int
  ignore_paths :: "string list"
  ignore_files :: "string list"
  include_patterns :: "string list"
  verbose :: bool

text \<open>\<^verbatim>\<open>Config()\<close>: the defaults of the dataclass.\<close>

definition Config_default :: Config where
  "Config_default =
     \<lparr>analyzers = [''complexity'', ''security'', ''smells''],
      min_severity = ''info'',
      max_complexity = 10, max_nesting_depth = 4, max_function_lines = 50,
      max_file_lines = 500, max_line_length = 120, max_parameters = 5,
      ignore_paths = [''node_modules/'', ''.git/'', ''__pycache__/'', ''.venv/'', ''venv/'',
                      ''env/'', ''.env/'', ''dist/'', ''build/'', ''.eggs/'', ''*.egg-info/'',
                      ''.tox/'', ''.pytest_cache/'', ''.mypy_cache/'', ''.coverage'',
                      ''htmlcov/''],
      ignore_files = [''*.pyc'', ''*.pyo'', ''*.so'', ''*.dll'', ''*.exe'', ''*.log'',
                      ''*.lock'', ''*.min.js'', ''*.min.css''],
      include_patterns = [],
      verbose = False\<rparr>"

text \<open>
  The check of \<^verbatim>\<open>min_severity\<close> in \<^verbatim>\<open>Config.__post_init__\<close>: construction raises
  ValueError unless \<^verbatim>\<open>self.min_severity.lower()\<close> is one of the five names.
\<close>

definition valid_severities :: "string list" where
  "valid_severities = [''critical'', ''high'', ''medium'', ''low'', ''info'']"

definition post_init :: "Config \<Rightarrow> error + Config" where
  "post_init cfg =
     (if lower (min_severity cfg) \<notin> set valid_severities
      then Inl (ValueError (''Invalid min_severity: '' @ min_severity cfg))
      else Inr cfg)"

text \<open>
  \<^verbatim>\<open>Config.severity_order\<close>, \<^verbatim>\<open>Config.min_severity_index\<close> and
  \<^verbatim>\<open>Config.should_report_severity\<close>; \<open>None\<close> is the ValueError of \<^verbatim>\<open>list.index\<close>.
\<close>

definition severity_order :: "string list" where
  "severity_order = [''critical'', ''high'', ''medium'', ''low'', ''info'']"

definition min_severity_index :: "Config \<Rightarrow> nat option" where
  "min_severity_index cfg = index severity_order (lower (min_severity cfg))"

definition should_report_severity :: "Config \<Rightarrow> string \<Rightarrow> bool option" where
  "should_report_severity cfg sev =
     (case index severity_order (lower sev) of
        None \<Rightarrow> None
      | Some severity_index \<Rightarrow>
          (case min_severity_index cfg of
             None \<Rightarrow> None
           | Some m \<Rightarrow> Some (severity_index \<le> m)))"

section \<open>Syntax trees (Python's \<^verbatim>\<open>ast\<close>, as the code consumes it)\<close>

text \<open>
  A node has a class (\<open>kind\<close>), the attributes the code reads (\<open>ident\<close> is \<^verbatim>\<open>name\<close> of a
  definition and \<^verbatim>\<open>arg\<close> of a parameter; line and column), and its child nodes in field
  order, each tagged with the field it sits in: a list field contributes one entry per
  element, an optional field that is \<^verbatim>\<open>None\<close> contributes none. \<^verbatim>\<open>ast.If\<close> is \<open>If_stmt\<close>.
  A field that is absent reads as empty; the trees \<^verbatim>\<open>ast.parse\<close> builds have every field.
\<close>

datatype kind =
    Module | FunctionDef | AsyncFunctionDef | ClassDef
  | If_stmt | IfExp | For | AsyncFor | While | ExceptHandler | With | AsyncWith | Try
  | BoolOp | comprehension | Assert | arguments | arg | Expr
  | Constant (value_is_str: bool)
  | Other string

datatype ast =
  Node (kind: kind) (ident: string) (lineno: int) (col_offset: int)
       (end_lineno: "int option") (children: "(string \<times> ast) list")

definition isinstance :: "ast \<Rightarrow> kind list \<Rightarrow> bool" where
  "isinstance n ks = (kind n \<in> set ks)"

text \<open>\<open>field f n\<close> is \<^verbatim>\<open>n.f\<close> as a list: the elements of a list field, or zero or one node.\<close>

definition field :: "string \<Rightarrow> ast \<Rightarrow> ast list" where
  "field f n = map snd (filter (\<lambda>kv. fst kv = f) (children n))"

text \<open>\<^verbatim>\<open>ast.iter_child_nodes\<close> and \<^verbatim>\<open>ast.walk\<close> (breadth first, by a queue).\<close>

definition iter_child_nodes :: "ast \<Rightarrow> ast list" where
  "iter_child_nodes n = map snd (children n)"

lemma sum_children:
  "(\<Sum>c\<leftarrow>map snd cs. size c) \<le> size_list (size_prod (\<lambda>_. 0) size) cs"
  by (induction cs) auto

function walk_queue :: "ast list \<Rightarrow> ast list" where
  "walk_queue [] = []"
| "walk_queue (n # todo) = n # walk_queue (todo @ iter_child_nodes n)"
  by pat_completeness auto
termination
proof (relation "measure (\<lambda>q. \<Sum>n\<leftarrow>q. size n)")
  show "wf (measure (\<lambda>q. \<Sum>n\<leftarrow>q. size n))" by simp
next
  fix n todo
  show "(todo @ iter_child_nodes n, n # todo) \<in> measure (\<lambda>q. \<Sum>n\<leftarrow>q. size n)"
    using sum_children [of "children n"]
    by (cases n) (simp add: iter_child_nodes_def)
qed

definition walk :: "ast \<Rightarrow> ast list" where
  "walk node = walk_queue [node]"

section \<open>Complexity analyzer (paila/analyzers/complexity.py)\<close>

text \<open>
  \<^verbatim>\<open>ComplexityAnalyzer._calculate_complexity\<close>: the \<^verbatim>\<open>if/elif\<close> chain applied to each
  node of the walk, starting from 1.
\<close>

definition complexity_step :: "ast \<Rightarrow> int \<Rightarrow> int" where
  "complexity_step child complexity =
     (if isinstance child [If_stmt, IfExp] then complexity + 1
      else if isinstance child [For, AsyncFor] then complexity + 1
      else if isinstance child [While] then complexity + 1
      else if isinstance child [ExceptHandler] then complexity + 1
      else if isinstance child [With, AsyncWith] then complexity + 1
      else if isinstance child [BoolOp] then complexity + (int (length (field ''values'' child)) - 1)
      else if isinstance child [comprehension] then complexity + int (length (field ''ifs'' child))
      else if isinstance child [Assert] then complexity + 1
      else complexity)"

definition calculate_complexity :: "ast \<Rightarrow> int" where
  "calculate_complexity node = fold complexity_step (walk node) 1"

text \<open>\<^verbatim>\<open>ComplexityAnalyzer._calculate_nesting_depth\<close> with its inner \<^verbatim>\<open>get_depth\<close>.\<close>

definition nesting_nodes :: "kind list" where
  "nesting_nodes = [If_stmt, For, AsyncFor, While, With, AsyncWith, Try,
                    FunctionDef, AsyncFunctionDef, ClassDef]"

fun get_depth :: "ast \<Rightarrow> int \<Rightarrow> int" where
  "get_depth (Node k i l c e cs) current_depth =
     fold (\<lambda>child max_depth.
             max max_depth
               (if isinstance child nesting_nodes
                then get_depth child (current_depth + 1)
                else get_depth child current_depth))
          (map snd cs) current_depth"

definition calculate_nesting_depth :: "ast \<Rightarrow> int" where
  "calculate_nesting_depth node = get_depth node 0"

text \<open>
  \<^verbatim>\<open>ComplexityAnalyzer._count_function_lines\<close>. \<^verbatim>\<open>if docstring_node.end_lineno\<close> is the
  truth value of an optional integer: false for \<^verbatim>\<open>None\<close> and for 0.
\<close>

definition is_docstring :: "ast \<Rightarrow> bool" where
  "is_docstring stmt =
     (isinstance stmt [Expr] \<and>
      (case field ''value'' stmt of
         [] \<Rightarrow> False
       | v # _ \<Rightarrow> isinstance v [Constant True]))"

definition count_function_lines :: "ast \<Rightarrow> int" where
  "count_function_lines node =
     (case end_lineno node of
        None \<Rightarrow> 0
      | Some e \<Rightarrow>
          (let total_lines = e - lineno node + 1 in
           case field ''body'' node of
             [] \<Rightarrow> total_lines
           | docstring_node # _ \<Rightarrow>
               if is_docstring docstring_node then
                 (case end_lineno docstring_node of
                    None \<Rightarrow> total_lines
                  | Some de \<Rightarrow>
                      if de = 0 then total_lines
                      else total_lines - (de - lineno docstring_node + 1))
               else total_lines))"

text \<open>
  \<open>node_args n\<close> is the \<^verbatim>\<open>arguments\<close> node \<^verbatim>\<open>n.args\<close> of a function definition. Its fields,
  as Python's \<^verbatim>\<open>ast.arguments\<close> declares them: \<^verbatim>\<open>posonlyargs\<close>, \<^verbatim>\<open>args\<close>, \<^verbatim>\<open>vararg\<close>,
  \<^verbatim>\<open>kwonlyargs\<close>, \<^verbatim>\<open>kw_defaults\<close>, \<^verbatim>\<open>kwarg\<close>, \<^verbatim>\<open>defaults\<close>.
\<close>

definition node_args :: "ast \<Rightarrow> ast" where
  "node_args n =
     (case field ''args'' n of
        [] \<Rightarrow> Node arguments [] (lineno n) (col_offset n) None []
      | a # _ \<Rightarrow> a)"

text \<open>\<^verbatim>\<open>ComplexityAnalyzer._get_params_str\<close>.\<close>

definition get_params_str :: "ast \<Rightarrow> string" where
  "get_params_str node =
     (let a = node_args node;
          params = map ident (field ''args'' a)
                   @ map (\<lambda>v. ''*'' @ ident v) (field ''vararg'' a)
                   @ map ident (field ''kwonlyargs'' a)
                   @ map (\<lambda>v. ''**'' @ ident v) (field ''kwarg'' a)
      in if length params > 3 then join '', '' (take 3 params) @ '', ...''
         else join '', '' params)"

text \<open>\<^verbatim>\<open>Issue(...)\<close> with the defaults of the fields a call leaves out.\<close>

definition Issue_default :: Issue where
  "Issue_default =
     \<lparr>itype = [], severity = INFO, ifile = [], line = 0, message = [], icode = [],
      column = 0, end_line = None, end_column = None, suggestion = [], rule = [],
      ai_explanation = None, ai_fix = None, metadata = []\<rparr>"

text \<open>
  The parameter count of \<^verbatim>\<open>ComplexityAnalyzer._analyze_function\<close>:
  \<^verbatim>\<open>len(node.args.args) + len(node.args.kwonlyargs)\<close>, plus one for \<^verbatim>\<open>vararg\<close> and one for
  \<^verbatim>\<open>kwarg\<close> when present.
\<close>

definition param_count :: "ast \<Rightarrow> int" where
  "param_count node =
     (let a = node_args node;
          c0 = int (length (field ''args'' a)) + int (length (field ''kwonlyargs'' a));
          c1 = (if field ''vararg'' a \<noteq> [] then c0 + 1 else c0)
      in if field ''kwarg'' a \<noteq> [] then c1 + 1 else c1)"

text \<open>\<^verbatim>\<open>ComplexityAnalyzer._analyze_function\<close>: the four checks, in the order of the source.\<close>

definition analyze_function :: "Config \<Rightarrow> ast \<Rightarrow> string \<Rightarrow> string \<Rightarrow> Issue list" where
  "analyze_function cfg node code file_path =
     (let complexity = calculate_complexity node;
          nesting = calculate_nesting_depth node;
          func_lines = count_function_lines node;
          pc = param_count node
      in
      (if complexity > max_complexity cfg then
         [Issue_default\<lparr>
            itype := ''high_complexity'',
            severity := (if complexity \<le> 15 then MEDIUM else HIGH),
            ifile := file_path, line := lineno node, column := col_offset node,
            message := ''Function '' @ [CHR 0x27] @ ident node @ [CHR 0x27]
                       @ '' has cyclomatic complexity of '' @ str_int complexity
                       @ '' (max: '' @ str_int (max_complexity cfg) @ '')'',
            icode := ''def '' @ ident node @ ''('' @ get_params_str node @ ''):'',
            suggestion := ''Consider breaking this function into smaller, more focused functions'',
            rule := ''complexity/high-complexity'',
            metadata := [(''complexity'', MInt complexity), (''function'', MStr (ident node))]\<rparr>]
       else [])
      @
      (if nesting > max_nesting_depth cfg then
         [Issue_default\<lparr>
            itype := ''deep_nesting'', severity := MEDIUM,
            ifile := file_path, line := lineno node, column := col_offset node,
            message := ''Function '' @ [CHR 0x27] @ ident node @ [CHR 0x27]
                       @ '' has nesting depth of '' @ str_int nesting
                       @ '' (max: '' @ str_int (max_nesting_depth cfg) @ '')'',
            icode := ''def '' @ ident node @ ''(...):'',
            suggestion := ''Extract nested logic into separate functions or use early returns'',
            rule := ''complexity/deep-nesting'',
            metadata := [(''nesting_depth'', MInt nesting), (''function'', MStr (ident node))]\<rparr>]
       else [])
      @
      (if func_lines > max_function_lines cfg then
         [Issue_default\<lparr>
            itype := ''long_function'', severity := LOW,
            ifile := file_path, line := lineno node, column := col_offset node,
            message := ''Function '' @ [CHR 0x27] @ ident node @ [CHR 0x27]
                       @ '' has '' @ str_int func_lines
                       @ '' lines (max: '' @ str_int (max_function_lines cfg) @ '')'',
            icode := ''def '' @ ident node @ ''(...):'',
            suggestion := ''Break this function into smaller, single-purpose functions'',
            rule := ''complexity/long-function'',
            metadata := [(''lines'', MInt func_lines), (''function'', MStr (ident node))]\<rparr>]
       else [])
      @
      (if pc > max_parameters cfg then
         [Issue_default\<lparr>
            itype := ''too_many_params'', severity := LOW,
            ifile := file_path, line := lineno node, column := col_offset node,
            message := ''Function '' @ [CHR 0x27] @ ident node @ [CHR 0x27]
                       @ '' has '' @ str_int pc
                       @ '' parameters (max: '' @ str_int (max_parameters cfg) @ '')'',
            icode := ''def '' @ ident node @ ''('' @ get_params_str node @ ''):'',
            suggestion := ''Consider using a configuration object or breaking into smaller functions'',
            rule := ''complexity/too-many-params'',
            metadata := [(''param_count'', MInt pc), (''function'', MStr (ident node))]\<rparr>]
       else []))"

text \<open>\<^verbatim>\<open>ComplexityAnalyzer._analyze_class\<close>: more than 20 methods in the class body.\<close>

definition analyze_class :: "ast \<Rightarrow> string \<Rightarrow> string \<Rightarrow> Issue list" where
  "analyze_class node code file_path =
     (let method_count =
            int (length (filter (\<lambda>child. isinstance child [FunctionDef, AsyncFunctionDef])
                           (field ''body'' node)))
      in if method_count > 20 then
           [Issue_default\<lparr>
              itype := ''god_class'', severity := MEDIUM,
              ifile := file_path, line := lineno node, column := col_offset node,
              message := ''Class '' @ [CHR 0x27] @ ident node @ [CHR 0x27] @ '' has ''
                         @ str_int method_count @ '' methods, which may indicate a ''
                         @ [CHR 0x27] @ ''God Class'' @ [CHR 0x27],
              icode := ''class '' @ ident node @ '':'',
              suggestion := ''Consider splitting this class into smaller, focused classes'',
              rule := ''complexity/god-class'',
              metadata := [(''method_count'', MInt method_count), (''class'', MStr (ident node))]\<rparr>]
         else [])"

text \<open>\<^verbatim>\<open>enumerate(xs, 1)\<close>.\<close>

definition enumerate1 :: "'a list \<Rightarrow> (int \<times> 'a) list" where
  "enumerate1 xs = zip (map int [1 ..< Suc (length xs)]) xs"

text \<open>\<^verbatim>\<open>ComplexityAnalyzer._check_line_lengths\<close> and \<^verbatim>\<open>_check_file_length\<close>.\<close>

definition check_line_lengths :: "Config \<Rightarrow> string \<Rightarrow> string \<Rightarrow> Issue list" where
  "check_line_lengths cfg code file_path =
     (let max_length = max_line_length cfg in
      concat (map (\<lambda>(i, txt).
        if int (length txt) > max_length then
          (if contains txt ''http://'' \<or> contains txt ''https://'' then []
           else if startswith (strip txt) ''import '' \<or> startswith (strip txt) ''from '' then []
           else
             [Issue_default\<lparr>
                itype := ''long_line'', severity := INFO,
                ifile := file_path, line := i, column := max_length,
                message := ''Line is '' @ str_int (int (length txt)) @ '' characters (max: ''
                           @ str_int max_length @ '')'',
                icode := (if length txt > 80 then take 80 txt @ ''...'' else txt),
                suggestion := ''Break this line into multiple lines for better readability'',
                rule := ''complexity/long-line'',
                metadata := [(''length'', MInt (int (length txt)))]\<rparr>])
        else []) (enumerate1 (split_lines code))))"

definition check_file_length :: "Config \<Rightarrow> string \<Rightarrow> string \<Rightarrow> Issue list" where
  "check_file_length cfg code file_path =
     (let line_count = int (length (split_lines code)) in
      if line_count > max_file_lines cfg then
        [Issue_default\<lparr>
           itype := ''large_file'', severity := LOW,
           ifile := file_path, line := 1, column := 0,
           message := ''File has '' @ str_int line_count @ '' lines (max: ''
                      @ str_int (max_file_lines cfg) @ '')'',
           icode := [],
           suggestion := ''Consider splitting this file into multiple modules'',
           rule := ''complexity/large-file'',
           metadata := [(''lines'', MInt line_count)]\<rparr>]
      else [])"

text \<open>
  The part of \<^verbatim>\<open>ComplexityAnalyzer.analyze\<close> that runs on a parsed tree: every function
  and class of the walk, then the two scans of the raw text.
\<close>

definition complexity_checks :: "Config \<Rightarrow> string \<Rightarrow> string \<Rightarrow> ast \<Rightarrow> Issue list" where
  "complexity_checks cfg code file_path tree =
     concat (map (\<lambda>node.
               if isinstance node [FunctionDef, AsyncFunctionDef]
               then analyze_function cfg node code file_path
               else if isinstance node [ClassDef] then analyze_class node code file_path
               else []) (walk tree))
     @ check_line_lengths cfg code file_path
     @ check_file_length cfg code file_path"

section \<open>Hard-coded secrets (paila/analyzers/security.py)\<close>

text \<open>
  The regular expressions of this detector are modelled by the scanners they denote.
  Both character classes are \<^verbatim>\<open>["']\<close> and its complement.
\<close>

definition is_quote :: "char \<Rightarrow> bool" where
  "is_quote c = (c = CHR 0x22 \<or> c = CHR 0x27)"

text \<open>
  A pattern of \<^verbatim>\<open>SECRET_PATTERNS\<close> is \<^verbatim>\<open>KW\s*=\s*["'][^"']+["']\<close> for a keyword \<^verbatim>\<open>KW\<close>,
  matched with \<^verbatim>\<open>re.IGNORECASE\<close>. \<open>match_at kw s\<close>: the pattern matches at the start of
  \<open>s\<close>. Each starred class is followed by a character outside it, so a match takes the
  whole run.
\<close>

definition match_at :: "string \<Rightarrow> string \<Rightarrow> bool" where
  "match_at kw s =
     (lower (take (length kw) s) = kw \<and>
      (case dropWhile is_space (drop (length kw) s) of
         [] \<Rightarrow> False
       | e # r1 \<Rightarrow>
           e = CHR ''='' \<and>
           (case dropWhile is_space r1 of
              [] \<Rightarrow> False
            | q # r2 \<Rightarrow>
                is_quote q \<and> takeWhile (\<lambda>c. \<not> is_quote c) r2 \<noteq> []
                \<and> dropWhile (\<lambda>c. \<not> is_quote c) r2 \<noteq> [])))"

text \<open>\<^verbatim>\<open>re.search(pattern, line, re.IGNORECASE)\<close>: a match at some position.\<close>

fun re_search :: "string \<Rightarrow> string \<Rightarrow> bool" where
  "re_search kw [] = match_at kw []"
| "re_search kw (c # cs) = (match_at kw (c # cs) \<or> re_search kw cs)"

definition SECRET_PATTERNS :: "(string \<times> string) list" where
  "SECRET_PATTERNS =
     [(''password'', ''hardcoded password''),
      (''passwd'', ''hardcoded password''),
      (''pwd'', ''hardcoded password''),
      (''secret'', ''hardcoded secret''),
      (''api_key'', ''hardcoded API key''),
      (''apikey'', ''hardcoded API key''),
      (''token'', ''hardcoded token''),
      (''auth_token'', ''hardcoded auth token''),
      (''access_key'', ''hardcoded access key''),
      (''private_key'', ''hardcoded private key'')]"

definition placeholders :: "string list" where
  "placeholders = [''example'', ''xxx'', ''your_'', ''changeme'', ''placeholder'', ''<'', ''>'']"

text \<open>
  \<^verbatim>\<open>SecurityAnalyzer._mask_secret\<close>:
  \<^verbatim>\<open>re.sub(r'(["\'])([^"\']{4})[^"\']*([^"\']{2})\1', r'\1\2****\3\1', line)\<close>.
  At a quote the pattern matches when the run of non-quote characters after it has at
  least six characters and ends at the same quote; the match is replaced and the scan goes
  on behind it. Anywhere else the character is kept and the scan moves one step.
\<close>

lemma tl_dropWhile_length: "length (dropWhile P cs) - Suc 0 < Suc (length cs)"
  using length_dropWhile_le [of P cs] by simp

function mask_secret :: "string \<Rightarrow> string" where
  "mask_secret [] = []"
| "mask_secret (c # cs) =
     (let run = takeWhile (\<lambda>x. \<not> is_quote x) cs;
          rest = dropWhile (\<lambda>x. \<not> is_quote x) cs
      in if is_quote c \<and> length run \<ge> 6 \<and> rest \<noteq> [] \<and> hd rest = c
         then c # take 4 run @ ''****'' @ drop (length run - 2) run @ [c] @ mask_secret (tl rest)
         else c # mask_secret cs)"
  by pat_completeness auto
termination
  by (relation "measure length") (simp_all add: tl_dropWhile_length)

text \<open>
  \<^verbatim>\<open>SecurityAnalyzer._check_hardcoded_secrets\<close>. The inner loop over the patterns:
  \<^verbatim>\<open>continue\<close> on a placeholder goes to the next pattern, the first other match reports and
  \<^verbatim>\<open>break\<close>s. \<open>None\<close>: no issue for the line.
\<close>

fun secret_scan :: "(string \<times> string) list \<Rightarrow> string \<Rightarrow> string option" where
  "secret_scan [] txt = None"
| "secret_scan ((pattern, description) # ps) txt =
     (if re_search pattern txt then
        (if (\<exists>placeholder \<in> set placeholders. contains (lower txt) placeholder)
         then secret_scan ps txt
         else Some description)
      else secret_scan ps txt)"

definition secret_issue :: "string \<Rightarrow> int \<Rightarrow> string \<Rightarrow> string \<Rightarrow> Issue" where
  "secret_issue file_path i txt description =
     Issue_default\<lparr>
       itype := ''hardcoded_secret'', severity := HIGH,
       ifile := file_path, line := i, column := 0,
       message := ''Potential '' @ description @ '' found'',
       icode := mask_secret (strip txt),
       suggestion := ''Use environment variables or a secrets manager instead of hardcoding secrets'',
       rule := ''security/hardcoded-secret'',
       metadata := [(''secret_type'', MStr description)]\<rparr>"

definition check_hardcoded_secrets :: "string \<Rightarrow> string \<Rightarrow> Issue list" where
  "check_hardcoded_secrets code file_path =
     concat (map (\<lambda>(i, txt).
               if startswith (strip txt) ''#'' then []
               else (case secret_scan SECRET_PATTERNS txt of
                       None \<Rightarrow> []
                     | Some description \<Rightarrow> [secret_issue file_path i txt description]))
             (enumerate1 (split_lines code)))"

section \<open>Rule engine (paila/rules/base.py)\<close>

text \<open>
  \<^verbatim>\<open>@dataclass class Rule\<close>. The fields \<^verbatim>\<open>id\<close>, \<^verbatim>\<open>name\<close>, \<^verbatim>\<open>description\<close>, \<^verbatim>\<open>severity\<close> and
  \<^verbatim>\<open>config\<close> carry the prefix \<open>rule_\<close>. A checker returns its issues or raises.
\<close>

record Rule =
  rule_id :: string
  rule_name :: string
  rule_description :: string
  rule_severity :: Severity
  category :: string
  checker :: "string \<Rightarrow> string \<Rightarrow> ast option \<Rightarrow> error + Issue list"
  enabled :: bool
  rule_config :: "(string \<times> meta_value) list"
  tags :: "string list"

text \<open>\<^verbatim>\<open>Rule.check\<close>.\<close>

definition check :: "Rule \<Rightarrow> string \<Rightarrow> string \<Rightarrow> ast option \<Rightarrow> error + Issue list" where
  "check r code file_path tree =
     (if \<not> enabled r then Inr [] else checker r code file_path tree)"

text \<open>
  \<^verbatim>\<open>class RuleSet\<close>: a name and the dictionary \<^verbatim>\<open>_rules\<close> from rule id to rule, in
  insertion order. Storing under a key that is present keeps the key's position.
\<close>

record RuleSet =
  set_name :: string
  rules_dict :: "(string \<times> Rule) list"

fun dict_set :: "('k \<times> 'v) list \<Rightarrow> 'k \<Rightarrow> 'v \<Rightarrow> ('k \<times> 'v) list" where
  "dict_set [] k v = [(k, v)]"
| "dict_set ((k', v') # d) k v = (if k' = k then (k, v) # d else (k', v') # dict_set d k v)"

definition add :: "RuleSet \<Rightarrow> Rule \<Rightarrow> RuleSet" where
  "add rs r = rs\<lparr>rules_dict := dict_set (rules_dict rs) (rule_id r) r\<rparr>"

definition remove :: "RuleSet \<Rightarrow> string \<Rightarrow> RuleSet" where
  "remove rs rid = rs\<lparr>rules_dict := filter (\<lambda>kv. fst kv \<noteq> rid) (rules_dict rs)\<rparr>"

definition enable :: "RuleSet \<Rightarrow> string \<Rightarrow> RuleSet" where
  "enable rs rid =
     rs\<lparr>rules_dict := map (\<lambda>(k, r). if k = rid then (k, r\<lparr>enabled := True\<rparr>) else (k, r))
                            (rules_dict rs)\<rparr>"

definition disable :: "RuleSet \<Rightarrow> string \<Rightarrow> RuleSet" where
  "disable rs rid =
     rs\<lparr>rules_dict := map (\<lambda>(k, r). if k = rid then (k, r\<lparr>enabled := False\<rparr>) else (k, r))
                            (rules_dict rs)\<rparr>"

text \<open>\<^verbatim>\<open>RuleSet.rules\<close> and \<^verbatim>\<open>RuleSet.enabled_rules\<close>.\<close>

definition rules :: "RuleSet \<Rightarrow> Rule list" where
  "rules rs = map snd (rules_dict rs)"

definition enabled_rules :: "RuleSet \<Rightarrow> Rule list" where
  "enabled_rules rs = filter enabled (rules rs)"

text \<open>
  \<^verbatim>\<open>RuleSet.check_all\<close>: the loop over the enabled rules; the handler of
  \<^verbatim>\<open>except Exception\<close> is \<^verbatim>\<open>pass\<close>, so a raise leaves the list \<^verbatim>\<open>issues\<close> (here \<open>acc\<close>) as it was.
\<close>

fun check_all_loop ::
  "Rule list \<Rightarrow> string \<Rightarrow> string \<Rightarrow> ast option \<Rightarrow> Issue list \<Rightarrow> Issue list" where
  "check_all_loop [] code file_path tree acc = acc"
| "check_all_loop (r # rs) code file_path tree acc =
     (case check r code file_path tree of
        Inr rule_issues \<Rightarrow> check_all_loop rs code file_path tree (acc @ rule_issues)
      | Inl e \<Rightarrow> check_all_loop rs code file_path tree acc)"

definition check_all :: "RuleSet \<Rightarrow> string \<Rightarrow> string \<Rightarrow> ast option \<Rightarrow> Issue list" where
  "check_all rs code file_path tree = check_all_loop (enabled_rules rs) code file_path tree []"

section \<open>Reviewer (paila/reviewer.py)\<close>

text \<open>
  What the reviewer takes from outside the repository, as parameters:
  \<^item> \<open>ast_parse\<close> is \<^verbatim>\<open>ast.parse\<close>: a tree, or a raise;
  \<^item> \<open>round_mean vs\<close> is \<^verbatim>\<open>round(sum(vs) / len(vs), 2)\<close> as floating point computes it,
    for a list that is not empty;
  \<^item> \<open>suffix\<close> and \<open>path_match\<close> are \<^verbatim>\<open>Path.suffix\<close> and \<^verbatim>\<open>Path.match\<close>; a path is the
    string \<^verbatim>\<open>str(path)\<close>; \<^verbatim>\<open>Path.match\<close> raises ValueError for an empty pattern, which
    is the answer \<open>None\<close>;
  \<^item> \<open>path_exists\<close>, \<open>is_dir\<close>, \<open>read_text\<close> and \<open>glob\<close> are the file system:
    \<^verbatim>\<open>Path.exists\<close>, \<^verbatim>\<open>Path.is_dir\<close> and \<^verbatim>\<open>Path.glob\<close> answer, or raise an OSError (a
    name that is too long, a directory that cannot be searched), which is the answer
    \<open>None\<close>;
  \<^item> \<open>sorted_paths\<close> is \<^verbatim>\<open>sorted\<close> on paths, \<open>now\<close> the time stamp of a new result, and
    \<open>completed\<close> the order in which the futures of a worker pool complete.
\<close>

datatype encoding = utf_8 | latin_1

record Env =
  ast_parse :: "string \<Rightarrow> error + ast"
  round_mean :: "rat list \<Rightarrow> rat"
  suffix :: "string \<Rightarrow> string"
  path_match :: "string \<Rightarrow> string \<Rightarrow> bool option"
  path_exists :: "string \<Rightarrow> bool option"
  is_dir :: "string \<Rightarrow> bool option"
  read_text :: "string \<Rightarrow> encoding \<Rightarrow> error + string"
  glob :: "string \<Rightarrow> string \<Rightarrow> string list option"
  sorted_paths :: "string list \<Rightarrow> string list"
  now :: string
  completed :: "string list \<Rightarrow> string list"

text \<open>
  \<^verbatim>\<open>Reviewer._parse_code\<close> and \<^verbatim>\<open>BaseAnalyzer.parse_code\<close> (the same body):
  \<^verbatim>\<open>except SyntaxError: return None\<close>; any other raise of the parser goes on.
\<close>

definition parse_code :: "Env \<Rightarrow> string \<Rightarrow> error + ast option" where
  "parse_code env code =
     (case ast_parse env code of
        Inr tree \<Rightarrow> Inr (Some tree)
      | Inl SyntaxError \<Rightarrow> Inr None
      | Inl e \<Rightarrow> Inl e)"

text \<open>
  An analyzer (\<^verbatim>\<open>BaseAnalyzer\<close>): its name and its method \<^verbatim>\<open>analyze(code, file_path, tree)\<close>.
\<close>

record Analyzer =
  analyzer_name :: string
  analyze :: "string \<Rightarrow> string \<Rightarrow> ast option \<Rightarrow> error + Issue list"

text \<open>
  The three analyzers of the repository begin alike: \<^verbatim>\<open>if tree is None: tree =
  self.parse_code(code)\<close>, then \<^verbatim>\<open>if tree is None: return issues\<close> with no issue, and
  only then the detectors, which run on the tree.
\<close>

definition analyze_builtin ::
  "Env \<Rightarrow> (string \<Rightarrow> string \<Rightarrow> ast \<Rightarrow> error + Issue list)
   \<Rightarrow> string \<Rightarrow> string \<Rightarrow> ast option \<Rightarrow> error + Issue list" where
  "analyze_builtin env detectors code file_path tree =
     (case tree of
        Some t \<Rightarrow> detectors code file_path t
      | None \<Rightarrow>
          (case parse_code env code of
             Inl e \<Rightarrow> Inl e
           | Inr None \<Rightarrow> Inr []
           | Inr (Some t) \<Rightarrow> detectors code file_path t))"

definition ComplexityAnalyzer :: "Env \<Rightarrow> Config \<Rightarrow> Analyzer" where
  "ComplexityAnalyzer env cfg =
     \<lparr>analyzer_name = ''complexity'',
      analyze = analyze_builtin env (\<lambda>code file_path t. Inr (complexity_checks cfg code file_path t))\<rparr>"

text \<open>
  The detectors of the security and of the smell analyzer are parameters
  (\<open>security_checks\<close>, \<open>smell_checks\<close>): what they report on a parsed tree, or that they
  raise.
\<close>

definition SecurityAnalyzer ::
  "Env \<Rightarrow> (string \<Rightarrow> string \<Rightarrow> ast \<Rightarrow> error + Issue list) \<Rightarrow> Analyzer" where
  "SecurityAnalyzer env security_checks =
     \<lparr>analyzer_name = ''security'', analyze = analyze_builtin env security_checks\<rparr>"

definition SmellAnalyzer ::
  "Env \<Rightarrow> (string \<Rightarrow> string \<Rightarrow> ast \<Rightarrow> error + Issue list) \<Rightarrow> Analyzer" where
  "SmellAnalyzer env smell_checks =
     \<lparr>analyzer_name = ''smells'', analyze = analyze_builtin env smell_checks\<rparr>"

text \<open>\<^verbatim>\<open>class Reviewer\<close>: the configuration and the list \<^verbatim>\<open>_analyzers\<close>.\<close>

record Reviewer =
  config :: Config
  analyzers_list :: "Analyzer list"

text \<open>\<^verbatim>\<open>Reviewer._setup_analyzers\<close> and \<^verbatim>\<open>Reviewer.__init__\<close>.\<close>

definition setup_analyzers ::
  "Env \<Rightarrow> (string \<Rightarrow> string \<Rightarrow> ast \<Rightarrow> error + Issue list)
   \<Rightarrow> (string \<Rightarrow> string \<Rightarrow> ast \<Rightarrow> error + Issue list)
   \<Rightarrow> Config \<Rightarrow> Analyzer list \<Rightarrow> Analyzer list" where
  "setup_analyzers env security_checks smell_checks cfg custom_analyzers =
     (if ''complexity'' \<in> set (analyzers cfg) then [ComplexityAnalyzer env cfg] else [])
     @ (if ''security'' \<in> set (analyzers cfg) then [SecurityAnalyzer env security_checks] else [])
     @ (if ''smells'' \<in> set (analyzers cfg) then [SmellAnalyzer env smell_checks] else [])
     @ custom_analyzers"

definition Reviewer_init ::
  "Env \<Rightarrow> (string \<Rightarrow> string \<Rightarrow> ast \<Rightarrow> error + Issue list)
   \<Rightarrow> (string \<Rightarrow> string \<Rightarrow> ast \<Rightarrow> error + Issue list)
   \<Rightarrow> Config \<Rightarrow> Analyzer list \<Rightarrow> Reviewer" where
  "Reviewer_init env security_checks smell_checks cfg custom_analyzers =
     \<lparr>config = cfg,
      analyzers_list = setup_analyzers env security_checks smell_checks cfg custom_analyzers\<rparr>"

text \<open>
  \<^verbatim>\<open>Reviewer._filter_by_severity\<close>. The dictionary \<^verbatim>\<open>severity_order\<close> is keyed by the
  members of \<open>Severity\<close>, that is by their values; \<^verbatim>\<open>self.config.min_severity\<close> is looked up
  as it stands, with 4 for a key that is absent.
\<close>

definition filter_severity_order :: "(string \<times> int) list" where
  "filter_severity_order =
     [(value CRITICAL, 0), (value HIGH, 1), (value MEDIUM, 2), (value LOW, 3), (value INFO, 4)]"

definition filter_by_severity :: "Config \<Rightarrow> Issue list \<Rightarrow> Issue list" where
  "filter_by_severity cfg is =
     (let min_level = dict_get filter_severity_order (min_severity cfg) 4 in
      filter (\<lambda>issue. dict_get filter_severity_order (value (severity issue)) 4 \<le> min_level) is)"

text \<open>
  \<^verbatim>\<open>Reviewer._calculate_function_complexity\<close>: the chain of the reviewer, starting from 1.
\<close>

definition function_complexity_step :: "ast \<Rightarrow> int \<Rightarrow> int" where
  "function_complexity_step child complexity =
     (if isinstance child [If_stmt, IfExp] then complexity + 1
      else if isinstance child [For, AsyncFor, While] then complexity + 1
      else if isinstance child [ExceptHandler] then complexity + 1
      else if isinstance child [With, AsyncWith] then complexity + 1
      else if isinstance child [BoolOp] then complexity + (int (length (field ''values'' child)) - 1)
      else if isinstance child [comprehension] then complexity + int (length (field ''ifs'' child))
      else complexity)"

definition calculate_function_complexity :: "ast \<Rightarrow> int" where
  "calculate_function_complexity node = fold function_complexity_step (walk node) 1"

text \<open>
  \<^verbatim>\<open>Reviewer._calculate_metrics\<close>. The counts of the raw lines come first; functions,
  classes and the complexity of each function come from the walk of the tree when there
  is one. \<^verbatim>\<open>round(0, 2)\<close> is 0.
\<close>

definition complexity_values_of :: "ast option \<Rightarrow> int list" where
  "complexity_values_of tree =
     (case tree of
        None \<Rightarrow> []
      | Some t \<Rightarrow> map calculate_function_complexity
                   (filter (\<lambda>node. isinstance node [FunctionDef, AsyncFunctionDef]) (walk t)))"

definition calculate_metrics :: "Env \<Rightarrow> string \<Rightarrow> ast option \<Rightarrow> Metrics" where
  "calculate_metrics env code tree =
     (let lines = split_lines code;
          total = int (length lines);
          blank = int (length (filter (\<lambda>l. strip l = []) lines));
          comment = int (length (filter (\<lambda>l. startswith (strip l) ''#'') lines));
          code_lines = total - blank - comment;
          nodes = (case tree of None \<Rightarrow> [] | Some t \<Rightarrow> walk t);
          fs = int (length (filter (\<lambda>node. isinstance node [FunctionDef, AsyncFunctionDef]) nodes));
          cs = int (length (filter (\<lambda>node. \<not> isinstance node [FunctionDef, AsyncFunctionDef]
                                            \<and> isinstance node [ClassDef]) nodes));
          complexity_values = complexity_values_of tree;
          avg = (if complexity_values = [] then 0
                 else round_mean env (map of_int complexity_values));
          mx = (if complexity_values = [] then 0 else Max (set complexity_values))
      in Metrics_default\<lparr>
           lines_of_code := code_lines, total_lines := total, blank_lines := blank,
           comment_lines := comment, num_functions := fs, num_classes := cs,
           avg_complexity := avg, max_complexity_metric := mx\<rparr>)"

text \<open>
  \<^verbatim>\<open>Reviewer.review_code\<close>. The loop over the analyzers: the issues of an analyzer are
  filtered and appended; \<^verbatim>\<open>except Exception\<close> drops what an analyzer that raises would
  have added (the warning it prints in verbose mode is no part of the result).
\<close>

fun run_analyzers ::
  "Config \<Rightarrow> Analyzer list \<Rightarrow> string \<Rightarrow> string \<Rightarrow> ast option \<Rightarrow> Issue list \<Rightarrow> Issue list" where
  "run_analyzers cfg [] code file_path tree acc = acc"
| "run_analyzers cfg (a # as) code file_path tree acc =
     (case analyze a code file_path tree of
        Inr analyzer_issues \<Rightarrow>
          run_analyzers cfg as code file_path tree (acc @ filter_by_severity cfg analyzer_issues)
      | Inl e \<Rightarrow> run_analyzers cfg as code file_path tree acc)"

definition review_code :: "Env \<Rightarrow> Reviewer \<Rightarrow> string \<Rightarrow> string \<Rightarrow> error + FileResult" where
  "review_code env rv code file_path =
     (case parse_code env code of
        Inl e \<Rightarrow> Inl e
      | Inr tree \<Rightarrow>
          Inr \<lparr>rfile = file_path,
               issues = run_analyzers (config rv) (analyzers_list rv) code file_path tree [],
               metrics = Some (calculate_metrics env code tree),
               skipped = False, error = None\<rparr>)"

text \<open>
  \<^verbatim>\<open>Reviewer._should_analyze_file\<close>: the extension, then the loop over the ignore paths
  (a substring test, which cannot raise), then the loop over the ignore files, in their
  order: a pattern that matches ends it with \<^verbatim>\<open>False\<close>, a pattern for which
  \<^verbatim>\<open>path.match\<close> raises ends it with that raise.
\<close>

fun ignore_files_loop :: "Env \<Rightarrow> string \<Rightarrow> string list \<Rightarrow> error + bool" where
  "ignore_files_loop env path [] = Inr True"
| "ignore_files_loop env path (pattern # ps) =
     (case path_match env path pattern of
        None \<Rightarrow> Inl (ValueError ''empty pattern'')
      | Some True \<Rightarrow> Inr False
      | Some False \<Rightarrow> ignore_files_loop env path ps)"

definition should_analyze_file :: "Env \<Rightarrow> Config \<Rightarrow> string \<Rightarrow> error + bool" where
  "should_analyze_file env cfg path =
     (if lower (suffix env path) \<notin> {''.py'', ''.pyi''} then Inr False
      else if \<exists>pattern \<in> set (ignore_paths cfg). contains path pattern then Inr False
      else ignore_files_loop env path (ignore_files cfg))"

text \<open>
  \<^verbatim>\<open>Reviewer.review_file\<close>: a raise of \<^verbatim>\<open>path.exists()\<close> goes on and the missing path
  raises FileNotFoundError, before anything else; a raise of
  \<^verbatim>\<open>_should_analyze_file\<close> goes on; a file that is not to be analysed gives the skipped
  result; the text is read as UTF-8 and, on a decoding error, as Latin-1; any other raise
  of a read goes on.
\<close>

definition review_file :: "Env \<Rightarrow> Reviewer \<Rightarrow> string \<Rightarrow> error + FileResult" where
  "review_file env rv path =
     (case path_exists env path of
        None \<Rightarrow> Inl OSError
      | Some False \<Rightarrow> Inl (FileNotFoundError (''File not found: '' @ path))
      | Some True \<Rightarrow>
        (case should_analyze_file env (config rv) path of
           Inl e \<Rightarrow> Inl e
         | Inr False \<Rightarrow>
             Inr \<lparr>rfile = path, issues = [], metrics = Some Metrics_default,
                  skipped = True, error = None\<rparr>
         | Inr True \<Rightarrow>
             (case read_text env path utf_8 of
                Inr code \<Rightarrow> review_code env rv code path
              | Inl UnicodeDecodeError \<Rightarrow>
                  (case read_text env path latin_1 of
                     Inr code \<Rightarrow> review_code env rv code path
                   | Inl e \<Rightarrow> Inl e)
              | Inl e \<Rightarrow> Inl e)))"

text \<open>
  \<^verbatim>\<open>@dataclass class ReviewResult\<close> (paila/models.py). The three dictionaries are maps:
  two dictionaries are equal in Python when they hold the same keys with the same
  values, whatever the order of insertion. The field \<^verbatim>\<open>metrics\<close> is \<open>overall_metrics\<close>.
\<close>

record ReviewResult =
  review_files :: "FileResult list"
  total_issues :: int
  issues_by_severity :: "string \<rightharpoonup> int"
  issues_by_type :: "string \<rightharpoonup> int"
  issues_by_file :: "string \<rightharpoonup> Issue list"
  overall_metrics :: "Metrics option"
  timestamp :: string
  duration_seconds :: rat

text \<open>
  \<^verbatim>\<open>Reviewer._collect_files\<close>: a raise of the glob goes on; the loop over its paths
  keeps those to be analysed and stops at the first raise of \<^verbatim>\<open>_should_analyze_file\<close>;
  the kept paths are sorted.
\<close>

fun collect_loop :: "Env \<Rightarrow> Config \<Rightarrow> string list \<Rightarrow> error + string list" where
  "collect_loop env cfg [] = Inr []"
| "collect_loop env cfg (path # ps) =
     (case should_analyze_file env cfg path of
        Inl e \<Rightarrow> Inl e
      | Inr keep \<Rightarrow>
          (case collect_loop env cfg ps of
             Inl e \<Rightarrow> Inl e
           | Inr fs \<Rightarrow> Inr (if keep then path # fs else fs)))"

definition collect_files :: "Env \<Rightarrow> Config \<Rightarrow> string \<Rightarrow> bool \<Rightarrow> error + string list" where
  "collect_files env cfg directory recursive =
     (let pattern = (if recursive then ''**/*.py'' else ''*.py'') in
      case glob env directory pattern of
        None \<Rightarrow> Inl OSError
      | Some paths \<Rightarrow>
          (case collect_loop env cfg paths of
             Inl e \<Rightarrow> Inl e
           | Inr fs \<Rightarrow> Inr (sorted_paths env fs)))"

text \<open>
  \<^verbatim>\<open>Reviewer._process_sequential\<close>: a file whose review raises adds no result.
\<close>

fun process_sequential :: "Env \<Rightarrow> Reviewer \<Rightarrow> string list \<Rightarrow> FileResult list" where
  "process_sequential env rv [] = []"
| "process_sequential env rv (file_path # fs) =
     (case review_file env rv file_path of
        Inr result \<Rightarrow> result # process_sequential env rv fs
      | Inl e \<Rightarrow> process_sequential env rv fs)"

text \<open>
  \<^verbatim>\<open>Reviewer._process_parallel\<close>: \<^verbatim>\<open>ThreadPoolExecutor(max_workers=...)\<close> raises ValueError
  for a width that is not positive; one future per file is submitted and the results
  are collected in the order \<^verbatim>\<open>as_completed\<close> yields the futures.
\<close>

definition process_parallel ::
  "Env \<Rightarrow> Reviewer \<Rightarrow> string list \<Rightarrow> int \<Rightarrow> error + FileResult list" where
  "process_parallel env rv fs max_workers =
     (if max_workers \<le> 0 then Inl (ValueError ''max_workers must be greater than 0'')
      else Inr (process_sequential env rv (completed env fs)))"

text \<open>
  \<^verbatim>\<open>Reviewer._aggregate_results\<close>. The first loop visits the results that are not
  skipped: it extends \<^verbatim>\<open>all_issues\<close>, stores the issues of the result under its file name
  (a later result of the same name replaces an earlier one) and adds up the metrics. The
  two counting loops run over \<^verbatim>\<open>all_issues\<close>.
\<close>

definition count_by :: "(Issue \<Rightarrow> string) \<Rightarrow> Issue list \<Rightarrow> (string \<rightharpoonup> int)" where
  "count_by key all_issues =
     fold (\<lambda>issue d. d(key issue \<mapsto> (case d (key issue) of None \<Rightarrow> 0 | Some n \<Rightarrow> n) + 1))
          all_issues Map.empty"

definition aggregate_results :: "Env \<Rightarrow> FileResult list \<Rightarrow> ReviewResult" where
  "aggregate_results env file_results =
     (let visited = filter (\<lambda>result. \<not> skipped result) file_results;
          all_issues = concat (map issues visited);
          by_file = fold (\<lambda>result d. d(rfile result \<mapsto> issues result)) visited Map.empty;
          ms = concat (map (\<lambda>result. case metrics result of None \<Rightarrow> [] | Some m \<Rightarrow> [m]) visited);
          complexity_values = map avg_complexity (filter (\<lambda>m. avg_complexity m > 0) ms);
          avg = (if complexity_values = [] then 0 else round_mean env complexity_values)
      in \<lparr>review_files = file_results,
          total_issues = int (length all_issues),
          issues_by_severity = count_by (\<lambda>issue. value (severity issue)) all_issues,
          issues_by_type = count_by itype all_issues,
          issues_by_file = by_file,
          overall_metrics = Some (Metrics_default\<lparr>
             lines_of_code := sum_list (map lines_of_code ms),
             total_lines := sum_list (map total_lines ms),
             num_functions := sum_list (map num_functions ms),
             num_classes := sum_list (map num_classes ms),
             avg_complexity := avg\<rparr>),
          timestamp = now env,
          duration_seconds = 0\<rparr>)"

text \<open>
  \<^verbatim>\<open>Reviewer.review_directory\<close>: the two guards raise before anything is collected; a
  raise of \<^verbatim>\<open>exists()\<close> or \<^verbatim>\<open>is_dir()\<close>, or one while the files are collected or the pool
  is made, goes on.
\<close>

definition review_directory ::
  "Env \<Rightarrow> Reviewer \<Rightarrow> string \<Rightarrow> bool \<Rightarrow> bool \<Rightarrow> int \<Rightarrow> error + ReviewResult" where
  "review_directory env rv directory recursive parallel max_workers =
     (case path_exists env directory of
        None \<Rightarrow> Inl OSError
      | Some False \<Rightarrow> Inl (NotADirectoryError (''Directory not found: '' @ directory))
      | Some True \<Rightarrow>
     (case is_dir env directory of
        None \<Rightarrow> Inl OSError
      | Some False \<Rightarrow> Inl (NotADirectoryError (''Not a directory: '' @ directory))
      | Some True \<Rightarrow>
        (case collect_files env (config rv) directory recursive of
           Inl e \<Rightarrow> Inl e
         | Inr fs \<Rightarrow>
             if fs = [] then
               Inr \<lparr>review_files = [], total_issues = 0, issues_by_severity = Map.empty,
                    issues_by_type = Map.empty, issues_by_file = Map.empty,
                    overall_metrics = None, timestamp = now env, duration_seconds = 0\<rparr>
             else if parallel \<and> length fs > 1 then
               (case process_parallel env rv fs max_workers of
                  Inl e \<Rightarrow> Inl e
                | Inr file_results \<Rightarrow> Inr (aggregate_results env file_results))
             else Inr (aggregate_results env (process_sequential env rv fs)))))"

section \<open>Notions used to state the properties\<close>

text \<open>How many issues of a list carry a given severity.\<close>

definition count_severity :: "Severity \<Rightarrow> Issue list \<Rightarrow> int" where
  "count_severity s is = int (length (filter (\<lambda>i. severity i = s) is))"

text \<open>
  The order of urgency the specification names: critical above high above medium above
  low above info.
\<close>

fun urgency :: "Severity \<Rightarrow> nat" where
  "urgency CRITICAL = 4"
| "urgency HIGH = 3"
| "urgency MEDIUM = 2"
| "urgency LOW = 1"
| "urgency INFO = 0"

text \<open>
  The parser answers for a text: \<open>ast_parse\<close> returns a tree or raises SyntaxError, and
  no other exception.
\<close>

definition parser_answers :: "Env \<Rightarrow> string \<Rightarrow> bool" where
  "parser_answers env code =
     (case ast_parse env code of Inr t \<Rightarrow> True | Inl e \<Rightarrow> e = SyntaxError)"

text \<open>
  The text of a file can be obtained and parsed: it is read as UTF-8, or as Latin-1 after
  a decoding error, and the parser answers for it.
\<close>

definition readable :: "Env \<Rightarrow> string \<Rightarrow> bool" where
  "readable env path =
     (case read_text env path utf_8 of
        Inr code \<Rightarrow> parser_answers env code
      | Inl UnicodeDecodeError \<Rightarrow>
          (case read_text env path latin_1 of
             Inr code \<Rightarrow> parser_answers env code
           | Inl e \<Rightarrow> False)
      | Inl e \<Rightarrow> False)"

text \<open>
  The masking the specification describes for a literal: its first two and its last two
  characters stay, every character between them becomes an asterisk.
\<close>

definition spec_mask_literal :: "string \<Rightarrow> string" where
  "spec_mask_literal lit =
     take 2 lit @ replicate (length lit - 4) (CHR ''*'') @ drop (length lit - 2) lit"

text \<open>The four fields of a review result that the invariance under execution order names.\<close>

definition four_fields ::
  "ReviewResult \<Rightarrow> int \<times> (string \<rightharpoonup> int) \<times> (string \<rightharpoonup> int) \<times> (string \<rightharpoonup> Issue list)" where
  "four_fields rr =
     (total_issues rr, issues_by_severity rr, issues_by_type rr, issues_by_file rr)"

section \<open>Concrete inputs\<close>

text \<open>A rule whose checker raises.\<close>

definition failing_rule :: Rule where
  "failing_rule =
     \<lparr>rule_id = ''r1'', rule_name = ''r1'', rule_description = [], rule_severity = LOW,
      category = ''custom'', checker = (\<lambda>code file_path tree. Inl (Exception ''boom'')),
      enabled = True, rule_config = [], tags = []\<rparr>"

text \<open>
  The tree of \<^verbatim>\<open>def f(x):\<close> / \<^verbatim>\<open>    assert x\<close>, as \<^verbatim>\<open>ast.parse\<close> builds it, and its module.
\<close>

definition assert_function :: ast where
  "assert_function =
     Node FunctionDef ''f'' 1 0 (Some 2)
       [(''args'', Node arguments [] 1 0 None
                     [(''args'', Node arg ''x'' 1 6 (Some 1) [])]),
        (''body'', Node Assert [] 2 4 (Some 2)
                     [(''test'', Node (Other ''Name'') ''x'' 2 11 (Some 2)
                                   [(''ctx'', Node (Other ''Load'') [] 0 0 None [])])])]"

definition assert_module :: ast where
  "assert_module = Node Module [] 0 0 None [(''body'', assert_function)]"

text \<open>
  The tree of \<^verbatim>\<open>def f(a, b, c, d, e, g, /): pass\<close>: six positional-only parameters.
\<close>

definition posonly_function :: ast where
  "posonly_function =
     Node FunctionDef ''f'' 1 0 (Some 1)
       [(''args'', Node arguments [] 1 0 None
                     [(''posonlyargs'', Node arg ''a'' 1 6 (Some 1) []),
                      (''posonlyargs'', Node arg ''b'' 1 9 (Some 1) []),
                      (''posonlyargs'', Node arg ''c'' 1 12 (Some 1) []),
                      (''posonlyargs'', Node arg ''d'' 1 15 (Some 1) []),
                      (''posonlyargs'', Node arg ''e'' 1 18 (Some 1) []),
                      (''posonlyargs'', Node arg ''g'' 1 21 (Some 1) [])]),
        (''body'', Node (Other ''Pass'') [] 1 27 (Some 1) [])]"

text \<open>
  A small world: the directory \<^verbatim>\<open>src\<close> holds \<^verbatim>\<open>src/a.py\<close> (readable, not parsable),
  \<^verbatim>\<open>src/b.py\<close> (not readable) and \<^verbatim>\<open>src/notes.txt\<close>; the parser of this world rejects every
  text and the worker pool completes its futures in reverse order. A name of more than
  255 characters is too long for its file system. Of \<^verbatim>\<open>Path.match\<close> it has
  the empty pattern, which raises, and \<^verbatim>\<open>*.py\<close>, which the two Python files match.
\<close>

definition example_env :: Env where
  "example_env =
     \<lparr>ast_parse = (\<lambda>code. Inl SyntaxError),
      round_mean = (\<lambda>vs. 0),
      suffix = (\<lambda>p. if p = ''src/notes.txt'' then ''.txt'' else if p = ''src'' then [] else ''.py''),
      path_match = (\<lambda>p pattern. if pattern = [] then None
                                 else Some (pattern = ''*.py'' \<and> p \<in> {''src/a.py'', ''src/b.py''})),
      path_exists = (\<lambda>p. if length p > 255 then None
                         else Some (p \<in> {''src'', ''src/a.py'', ''src/b.py'', ''src/notes.txt''})),
      is_dir = (\<lambda>p. if length p > 255 then None else Some (p = ''src'')),
      read_text = (\<lambda>p enc. if p = ''src/a.py'' then Inr ''def f(:'' else Inl OSError),
      glob = (\<lambda>d pattern. if d = ''src'' then Some [''src/a.py'', ''src/b.py''] else Some []),
      sorted_paths = (\<lambda>ps. ps),
      now = ''2024-01-01T00:00:00'',
      completed = rev\<rparr>"

definition example_reviewer :: Reviewer where
  "example_reviewer =
     Reviewer_init example_env (\<lambda>code file_path t. Inr []) (\<lambda>code file_path t. Inr [])
       Config_default []"

text \<open>The line \<^verbatim>\<open>password = "secret123"\<close>.\<close>

definition secret_line :: string where
  "secret_line = ''password = '' @ [CHR 0x22] @ ''secret123'' @ [CHR 0x22]"

text \<open>
  Three file results: two that carry the same file name with different issues, and one
  for another file.
\<close>

definition example_issue :: Issue where
  "example_issue =
     Issue_default\<lparr>itype := ''long_line'', severity := INFO, ifile := ''a.py'', line := 1\<rparr>"

definition result_a :: FileResult where
  "result_a = \<lparr>rfile = ''a.py'', issues = [example_issue], metrics = Some Metrics_default,
               skipped = False, error = None\<rparr>"

definition result_a_again :: FileResult where
  "result_a_again = \<lparr>rfile = ''a.py'', issues = [], metrics = Some Metrics_default,
                     skipped = False, error = None\<rparr>"

definition result_b :: FileResult where
  "result_b = \<lparr>rfile = ''b.py'', issues = [], metrics = Some Metrics_default,
               skipped = False, error = None\<rparr>"



text \<open>
  A reviewer whose configuration has the ignore-file patterns \<^verbatim>\<open>['', '*.py']\<close>: the empty
  pattern stands before one that \<^verbatim>\<open>src/a.py\<close> matches.
\<close>

definition empty_pattern_reviewer :: Reviewer where
  "empty_pattern_reviewer =
     Reviewer_init example_env (\<lambda>code file_path t. Inr []) (\<lambda>code file_path t. Inr [])
       (Config_default\<lparr>ignore_files := [[], ''*.py'']\<rparr>) []"

text \<open>
  The lines \<^verbatim>\<open>connect(user="admin", password="hunter2hunter2")\<close> and
  \<^verbatim>\<open>password = "abc12"\<close>.
\<close>

definition connect_line :: string where
  "connect_line = ''connect(user='' @ [CHR 0x22] @ ''admin'' @ [CHR 0x22] @ '', password=''
                  @ [CHR 0x22] @ ''hunter2hunter2'' @ [CHR 0x22] @ '')''"

definition short_line :: string where
  "short_line = ''password = '' @ [CHR 0x22] @ ''abc12'' @ [CHR 0x22]"

text \<open>
  A reviewer whose configuration has the ignore-file patterns \<^verbatim>\<open>['*.log', '*.py']\<close>.
\<close>

definition py_ignoring_reviewer :: Reviewer where
  "py_ignoring_reviewer =
     Reviewer_init example_env (\<lambda>code file_path t. Inr []) (\<lambda>code file_path t. Inr [])
       (Config_default\<lparr>ignore_files := [''*.log'', ''*.py'']\<rparr>) []"

section \<open>Score and grade\<close>

lemma score_loop_sum:
  "score_loop is sc = sc - (\<Sum>i\<leftarrow>is. severity_deductions (severity i))"
  by (induction "is" arbitrary: sc) simp_all

lemma deductions_by_count:
  "(\<Sum>i\<leftarrow>is. severity_deductions (severity i)) =
     15 * count_severity CRITICAL is + 10 * count_severity HIGH is
     + 5 * count_severity MEDIUM is + 2 * count_severity LOW is
     + 0 * count_severity INFO is"
proof (induction "is")
  case Nil
  show ?case by (simp add: count_severity_def)
next
  case (Cons i "is")
  then show ?case
    by (cases "severity i") (simp_all add: count_severity_def)
qed

text \<open>
  C2. For every list of issues the score of a file result is 100 minus the sum of the
  severity weights of its issues (critical 15, high 10, medium 5, low 2, info 0), clamped
  to the range 0..100, and the grade is A from 90, B from 80 below 90, C from 70 below 80,
  D from 60 below 70 and F below 60.
\<close>

theorem C2_score_grade:
  "score fr = max 0 (min 100 (100 - (\<Sum>i\<leftarrow>issues fr. severity_deductions (severity i))))
   \<and> score fr = max 0 (min 100 (100 -
        (15 * count_severity CRITICAL (issues fr) + 10 * count_severity HIGH (issues fr)
         + 5 * count_severity MEDIUM (issues fr) + 2 * count_severity LOW (issues fr)
         + 0 * count_severity INFO (issues fr))))
   \<and> (grade fr = ''A'') = (score fr \<ge> 90)
   \<and> (grade fr = ''B'') = (80 \<le> score fr \<and> score fr < 90)
   \<and> (grade fr = ''C'') = (70 \<le> score fr \<and> score fr < 80)
   \<and> (grade fr = ''D'') = (60 \<le> score fr \<and> score fr < 70)
   \<and> (grade fr = ''F'') = (score fr < 60)"
proof -
  have s1: "score fr = max 0 (min 100 (100 - (\<Sum>i\<leftarrow>issues fr. severity_deductions (severity i))))"
    by (simp add: score_def score_loop_sum)
  have s2: "score fr = max 0 (min 100 (100 -
        (15 * count_severity CRITICAL (issues fr) + 10 * count_severity HIGH (issues fr)
         + 5 * count_severity MEDIUM (issues fr) + 2 * count_severity LOW (issues fr)
         + 0 * count_severity INFO (issues fr))))"
    unfolding s1 deductions_by_count [symmetric] ..
  have g: "(grade fr = ''A'') = (score fr \<ge> 90)"
    "(grade fr = ''B'') = (80 \<le> score fr \<and> score fr < 90)"
    "(grade fr = ''C'') = (70 \<le> score fr \<and> score fr < 80)"
    "(grade fr = ''D'') = (60 \<le> score fr \<and> score fr < 70)"
    "(grade fr = ''F'') = (score fr < 60)"
    by (auto simp add: grade_def Let_def)
  from s1 s2 g show ?thesis by blast
qed

section \<open>Severity filter\<close>

lemma filter_by_severity_value:
  "filter_by_severity (cfg\<lparr>min_severity := value S\<rparr>) is =
     filter (\<lambda>issue. urgency (severity issue) \<ge> urgency S) is"
proof -
  have lev: "dict_get filter_severity_order (value T) 4 = 4 - int (urgency T)" for T
    by (cases T) (simp_all add: dict_get_def filter_severity_order_def)
  have "(dict_get filter_severity_order (value T) 4 \<le> dict_get filter_severity_order (value S) 4)
        = (urgency T \<ge> urgency S)" for T
    unfolding lev by (cases T; cases S) simp_all
  then show ?thesis
    by (simp add: filter_by_severity_def Let_def)
qed

text \<open>
  C4, at the failing input. \<^verbatim>\<open>Config(min_severity="HIGH")\<close> passes the check of
  \<^verbatim>\<open>__post_init__\<close>, and \<^verbatim>\<open>Config.should_report_severity\<close> (which lower-cases) refuses an
  info issue under it; the filter of the reviewer looks \<^verbatim>\<open>"HIGH"\<close> up as it stands, finds
  no such key, takes level 4 and keeps the info issue.
\<close>

theorem C4_filter_keeps_info_under_HIGH:
  "post_init (Config_default\<lparr>min_severity := ''HIGH''\<rparr>)
     = Inr (Config_default\<lparr>min_severity := ''HIGH''\<rparr>)
   \<and> should_report_severity (Config_default\<lparr>min_severity := ''HIGH''\<rparr>) (value INFO) = Some False
   \<and> filter_by_severity (Config_default\<lparr>min_severity := ''HIGH''\<rparr>)
        [Issue_default\<lparr>severity := INFO\<rparr>] = [Issue_default\<lparr>severity := INFO\<rparr>]
   \<and> filter_by_severity (Config_default\<lparr>min_severity := value HIGH\<rparr>)
        [Issue_default\<lparr>severity := INFO\<rparr>] = []"
  by code_simp

section \<open>Rule sets\<close>

text \<open>What a rule adds to the result of \<open>check_all\<close>: its issues, or nothing when it raises.\<close>

lemma check_all_loop_concat:
  "check_all_loop rs code file_path tree acc =
     acc @ concat (map (\<lambda>r. case check r code file_path tree of Inr xs \<Rightarrow> xs | Inl e \<Rightarrow> []) rs)"
  by (induction rs arbitrary: acc) (simp_all split: sum.splits)

text \<open>
  C9, as the code has it. \<open>check_all\<close> returns the concatenation, in the order of the
  rule set, of what the checkers of the enabled rules return; a checker that raises adds
  nothing and the raise does not leave \<open>check_all\<close>, whose result is the list of issues
  alone: nothing about the failure is kept.
\<close>

theorem C9_check_all_concat:
  "check_all rs code file_path tree =
     concat (map (\<lambda>r. case checker r code file_path tree of Inr xs \<Rightarrow> xs | Inl e \<Rightarrow> [])
                 (filter enabled (map snd (rules_dict rs))))"
proof -
  have eq: "map (\<lambda>r. case check r code file_path tree of Inr xs \<Rightarrow> xs | Inl e \<Rightarrow> []) (filter enabled xs)
      = map (\<lambda>r. case checker r code file_path tree of Inr xs \<Rightarrow> xs | Inl e \<Rightarrow> []) (filter enabled xs)"
    for xs
    by (rule map_cong) (simp_all add: check_def)
  show ?thesis
    unfolding check_all_def check_all_loop_concat enabled_rules_def rules_def eq by simp
qed

text \<open>
  The claim as stated fails where it says that the failure is recorded: a rule set whose
  only rule raises and the same set with a rule that finds nothing give the same result,
  the empty list.
\<close>

theorem C9_failure_not_recorded:
  "check_all \<lparr>set_name = ''default'', rules_dict = [(''r1'', failing_rule)]\<rparr> ''x = 1'' ''t.py'' None
     = check_all \<lparr>set_name = ''default'',
                  rules_dict = [(''r1'', failing_rule\<lparr>checker := (\<lambda>code file_path tree. Inr [])\<rparr>)]\<rparr>
         ''x = 1'' ''t.py'' None
   \<and> check_all \<lparr>set_name = ''default'', rules_dict = [(''r1'', failing_rule)]\<rparr> ''x = 1'' ''t.py'' None
     = []"
  by (simp add: check_all_def enabled_rules_def rules_def check_def failing_rule_def)

section \<open>Cyclomatic complexity: the checker and the reviewer\<close>

lemma function_complexity_step_add:
  "function_complexity_step c (a + k) = function_complexity_step c a + k"
  by (simp add: function_complexity_step_def)

lemma complexity_step_assert:
  "complexity_step c a =
     function_complexity_step c a + (if isinstance c [Assert] then 1 else 0)"
  by (auto simp add: complexity_step_def function_complexity_step_def isinstance_def)

lemma fold_function_complexity_shift:
  "fold function_complexity_step ys (b + k) = fold function_complexity_step ys b + k"
  by (induction ys arbitrary: b) (simp_all add: function_complexity_step_add)

lemma fold_complexity_assert:
  "fold complexity_step xs a =
     fold function_complexity_step xs a + int (length (filter (\<lambda>c. isinstance c [Assert]) xs))"
proof (induction xs arbitrary: a)
  case Nil
  show ?case by simp
next
  case (Cons c xs)
  let ?n = "int (length (filter (\<lambda>c. isinstance c [Assert]) xs))"
  let ?d = "(if isinstance c [Assert] then 1 else 0) :: int"
  have step: "complexity_step c a = function_complexity_step c a + ?d"
    by (rule complexity_step_assert)
  have "fold complexity_step (c # xs) a = fold complexity_step xs (complexity_step c a)"
    by simp
  also have "\<dots> = fold function_complexity_step xs (complexity_step c a) + ?n"
    by (rule Cons.IH)
  also have "\<dots> = fold function_complexity_step xs (function_complexity_step c a) + ?d + ?n"
    by (simp only: step fold_function_complexity_shift)
  also have "\<dots> = fold function_complexity_step (c # xs) a
                     + int (length (filter (\<lambda>c. isinstance c [Assert]) (c # xs)))"
    by simp
  finally show ?case .
qed

text \<open>
  The two computations differ by the assertions of the function: the checker counts
  each \<^verbatim>\<open>assert\<close>, the reviewer counts none.
\<close>

lemma complexity_checker_vs_reviewer:
  "calculate_complexity node =
     calculate_function_complexity node
     + int (length (filter (\<lambda>c. isinstance c [Assert]) (walk node)))"
  by (simp add: calculate_complexity_def calculate_function_complexity_def fold_complexity_assert)

lemma walk_assert_function:
  "walk assert_function =
     [assert_function,
      Node arguments [] 1 0 None [(''args'', Node arg ''x'' 1 6 (Some 1) [])],
      Node Assert [] 2 4 (Some 2)
        [(''test'', Node (Other ''Name'') ''x'' 2 11 (Some 2)
                      [(''ctx'', Node (Other ''Load'') [] 0 0 None [])])],
      Node arg ''x'' 1 6 (Some 1) [],
      Node (Other ''Name'') ''x'' 2 11 (Some 2) [(''ctx'', Node (Other ''Load'') [] 0 0 None [])],
      Node (Other ''Load'') [] 0 0 None []]"
  by (simp add: walk_def assert_function_def iter_child_nodes_def)

text \<open>
  C5, at the failing input \<^verbatim>\<open>def f(x): assert x\<close>. The complexity checker gives the
  function complexity 2 (one assertion), the reviewer gives it 1, and the metrics of the
  file report 1 as the greatest complexity.
\<close>

theorem C5_assert_counted_by_checker_only:
  "calculate_complexity assert_function = 2
   \<and> calculate_function_complexity assert_function = 1
   \<and> max_complexity_metric
        (calculate_metrics example_env ''def f(x):\<newline>    assert x'' (Some assert_module)) = 1"
proof -
  have w: "walk assert_module = assert_module # walk assert_function"
    by (simp add: walk_def assert_module_def assert_function_def iter_child_nodes_def)
  have c1: "calculate_function_complexity assert_function = 1"
    by (simp add: calculate_function_complexity_def walk_assert_function
        function_complexity_step_def isinstance_def)
       (simp add: assert_function_def)
  have c2: "calculate_complexity assert_function = 2"
    by (simp add: complexity_checker_vs_reviewer c1)
       (simp add: walk_assert_function isinstance_def, simp add: assert_function_def)
  have vals: "complexity_values_of (Some assert_module) = [1]"
    by (simp add: complexity_values_of_def w walk_assert_function isinstance_def c1)
       (simp add: assert_module_def assert_function_def c1)
  have "max_complexity_metric (calculate_metrics example_env code (Some assert_module)) = 1" for code
    by (simp add: calculate_metrics_def Let_def vals)
  with c1 c2 show ?thesis by simp
qed

section \<open>Parameter count\<close>

text \<open>
  What the check counts, and when it reports: the \<^verbatim>\<open>args\<close> and \<^verbatim>\<open>kwonlyargs\<close> of the
  function plus one for each of \<^verbatim>\<open>*args\<close> and \<^verbatim>\<open>**kwargs\<close>; \<^verbatim>\<open>posonlyargs\<close> is not read.
\<close>

lemma param_count_eq:
  "param_count node =
     int (length (field ''args'' (node_args node)))
     + int (length (field ''kwonlyargs'' (node_args node)))
     + (if field ''vararg'' (node_args node) \<noteq> [] then 1 else 0)
     + (if field ''kwarg'' (node_args node) \<noteq> [] then 1 else 0)"
  by (simp add: param_count_def Let_def)

lemma too_many_params_iff:
  "(\<exists>i \<in> set (analyze_function cfg node code file_path). itype i = ''too_many_params'')
     = (param_count node > max_parameters cfg)"
  by (auto simp add: analyze_function_def Let_def Issue_default_def)

text \<open>
  C7, at the failing input \<^verbatim>\<open>def f(a, b, c, d, e, g, /): pass\<close> under the default
  configuration (at most 5 parameters). The function has six positional parameters, all
  positional-only; the check counts 0 and reports nothing.
\<close>

theorem C7_positional_only_not_counted:
  "length (field ''posonlyargs'' (node_args posonly_function)) = 6
   \<and> max_parameters Config_default = 5
   \<and> param_count posonly_function = 0
   \<and> analyze_function Config_default posonly_function
        ''def f(a, b, c, d, e, g, /): pass'' ''t.py'' = []"
  by code_simp

section \<open>Reviewing one file\<close>

lemma ignore_files_loop_env:
  "ignore_files_loop (env\<lparr>read_text := r, ast_parse := p\<rparr>) path ps
     = ignore_files_loop env path ps"
  by (induction ps) (simp_all split: option.splits bool.splits)

lemma should_analyze_file_env:
  "should_analyze_file (env\<lparr>read_text := r, ast_parse := p\<rparr>) cfg path
     = should_analyze_file env cfg path"
  by (simp add: should_analyze_file_def ignore_files_loop_env)

lemma ignore_files_loop_match:
  "\<forall>p \<in> set ps. path_match env path p = Some False \<Longrightarrow>
   path_match env path pattern = Some True \<Longrightarrow>
   ignore_files_loop env path (ps @ pattern # rest) = Inr False"
  by (induction ps) simp_all

text \<open>
  The claim as stated fails where an empty ignore-file pattern stands before the pattern
  that matches: \<^verbatim>\<open>src/a.py\<close> exists and matches the configured \<^verbatim>\<open>*.py\<close>, yet \<open>review_file\<close>
  raises the ValueError of \<^verbatim>\<open>path.match('')\<close> instead of returning the skipped result.
\<close>

theorem C10_empty_pattern_raises:
  "path_exists example_env ''src/a.py'' = Some True
   \<and> ignore_files (config empty_pattern_reviewer) = [[], ''*.py'']
   \<and> path_match example_env ''src/a.py'' ''*.py'' = Some True
   \<and> review_file example_env empty_pattern_reviewer ''src/a.py''
       = Inl (ValueError ''empty pattern'')"
  by code_simp

text \<open>
  C10, as the code has it. For an existing path whose lower-cased extension is neither
  \<^verbatim>\<open>.py\<close> nor \<^verbatim>\<open>.pyi\<close>, or whose string contains a configured ignore-path substring, or
  which matches a configured ignore-file pattern while every pattern configured before it
  is evaluated and does not match, \<open>review_file\<close> returns the skipped result: no issue, no
  error, the default metrics. The result is the same whatever reading the file, the
  parser and the analyzers would do: none of them is used.
\<close>

theorem C10_skipped_file:
  assumes "path_exists env path = Some True"
    and "lower (suffix env path) \<notin> {''.py'', ''.pyi''}
         \<or> (\<exists>pattern \<in> set (ignore_paths (config rv)). contains path pattern)
         \<or> (\<exists>ps pattern rest.
               ignore_files (config rv) = ps @ pattern # rest
               \<and> (\<forall>p \<in> set ps. path_match env path p = Some False)
               \<and> path_match env path pattern = Some True)"
  shows "review_file env rv path
           = Inr \<lparr>rfile = path, issues = [], metrics = Some Metrics_default,
                  skipped = True, error = None\<rparr>
         \<and> review_file (env\<lparr>read_text := any_read, ast_parse := any_parse\<rparr>)
                        (rv\<lparr>analyzers_list := any_analyzers\<rparr>) path
           = review_file env rv path"
proof -
  from assms(2) have no: "should_analyze_file env (config rv) path = Inr False"
    by (auto simp add: should_analyze_file_def ignore_files_loop_match)
  show ?thesis
    using assms(1) no by (simp add: review_file_def should_analyze_file_env)
qed

theorem C10_skipped_file_witness:
  "path_exists example_env ''src/notes.txt'' = Some True
   \<and> lower (suffix example_env ''src/notes.txt'') \<notin> {''.py'', ''.pyi''}
   \<and> review_file example_env example_reviewer ''src/notes.txt''
       = Inr \<lparr>rfile = ''src/notes.txt'', issues = [], metrics = Some Metrics_default,
              skipped = True, error = None\<rparr>
   \<and> path_exists example_env ''src/a.py'' = Some True
   \<and> ignore_files (config py_ignoring_reviewer) = [''*.log''] @ ''*.py'' # []
   \<and> path_match example_env ''src/a.py'' ''*.log'' = Some False
   \<and> path_match example_env ''src/a.py'' ''*.py'' = Some True
   \<and> review_file example_env py_ignoring_reviewer ''src/a.py''
       = Inr \<lparr>rfile = ''src/a.py'', issues = [], metrics = Some Metrics_default,
              skipped = True, error = None\<rparr>"
proof -
  have h1: "path_exists example_env ''src/notes.txt'' = Some True"
    "path_exists example_env ''src/a.py'' = Some True"
    by (simp_all add: example_env_def)
  have low: "lower ''.txt'' = ''.txt''"
    by code_simp
  have h2: "lower (suffix example_env ''src/notes.txt'') \<notin> {''.py'', ''.pyi''}"
    by (simp add: example_env_def low)
  have c: "ignore_files (config py_ignoring_reviewer) = [''*.log''] @ ''*.py'' # []"
    by (simp add: py_ignoring_reviewer_def Reviewer_init_def)
  have m: "\<forall>p \<in> set [''*.log'']. path_match example_env ''src/a.py'' p = Some False"
    "path_match example_env ''src/a.py'' ''*.py'' = Some True"
    by (simp_all add: example_env_def)
  have h3: "\<exists>ps pattern rest.
      ignore_files (config py_ignoring_reviewer) = ps @ pattern # rest
      \<and> (\<forall>p \<in> set ps. path_match example_env ''src/a.py'' p = Some False)
      \<and> path_match example_env ''src/a.py'' pattern = Some True"
    using c m by blast
  note t1 = C10_skipped_file [of example_env "''src/notes.txt''" example_reviewer, OF h1(1)]
  note t2 = C10_skipped_file [of example_env "''src/a.py''" py_ignoring_reviewer, OF h1(2)]
  from t1 h2 have r1: "review_file example_env example_reviewer ''src/notes.txt''
       = Inr \<lparr>rfile = ''src/notes.txt'', issues = [], metrics = Some Metrics_default,
              skipped = True, error = None\<rparr>"
    by blast
  from t2 h3 have r2: "review_file example_env py_ignoring_reviewer ''src/a.py''
       = Inr \<lparr>rfile = ''src/a.py'', issues = [], metrics = Some Metrics_default,
              skipped = True, error = None\<rparr>"
    by blast
  from h1 h2 c m r1 r2 show ?thesis by simp
qed

section \<open>When a review raises\<close>

lemma review_code_returns:
  "parser_answers env code \<Longrightarrow> \<exists>r. review_code env rv code path = Inr r"
  by (auto simp add: parser_answers_def review_code_def parse_code_def
      split: sum.splits error.splits)

lemma ignore_files_loop_error:
  "ignore_files_loop env path ps = Inl e \<Longrightarrow> e = ValueError ''empty pattern''"
  by (induction ps) (auto split: option.splits bool.splits)

lemma should_analyze_file_error:
  "should_analyze_file env cfg path = Inl e \<Longrightarrow> e = ValueError ''empty pattern''"
  by (auto simp add: should_analyze_file_def split: if_splits dest: ignore_files_loop_error)

lemma collect_loop_error:
  "collect_loop env cfg ps = Inl e \<Longrightarrow> e = ValueError ''empty pattern''"
  by (induction ps arbitrary: e) (auto split: sum.splits dest: should_analyze_file_error)

lemma collect_files_error:
  "collect_files env cfg d recursive = Inl e \<Longrightarrow> e = ValueError ''empty pattern'' \<or> e = OSError"
  by (auto simp add: collect_files_def Let_def split: sum.splits option.splits
      dest: collect_loop_error)

text \<open>
  The claim as stated fails for existing paths: \<open>review_directory\<close> raises for an existing
  file (the guard on \<^verbatim>\<open>is_dir\<close>), and \<open>review_file\<close> raises for an existing file that
  cannot be read.
\<close>

theorem C8_existing_path_raises:
  "path_exists example_env ''src/a.py'' = Some True
   \<and> review_directory example_env example_reviewer ''src/a.py'' True True 4
       = Inl (NotADirectoryError ''Not a directory: src/a.py'')
   \<and> path_exists example_env ''src/b.py'' = Some True
   \<and> review_file example_env example_reviewer ''src/b.py'' = Inl OSError"
proof -
  have cfg: "config example_reviewer = Config_default"
    by (simp add: example_reviewer_def Reviewer_init_def)
  have sa: "should_analyze_file example_env Config_default ''src/b.py'' = Inr True"
    by code_simp
  have ex: "path_exists example_env ''src/a.py'' = Some True"
    "path_exists example_env ''src/b.py'' = Some True"
    "is_dir example_env ''src/a.py'' = Some False"
    "read_text example_env ''src/b.py'' utf_8 = Inl OSError"
    by (simp_all add: example_env_def)
  have d: "review_directory example_env example_reviewer ''src/a.py'' True True 4
       = Inl (NotADirectoryError ''Not a directory: src/a.py'')"
    by (simp add: review_directory_def ex)
  have f: "review_file example_env example_reviewer ''src/b.py'' = Inl OSError"
    by (simp add: review_file_def cfg sa ex)
  from d f ex show ?thesis by simp
qed

text \<open>
  C8, as the code has it. \<open>review_file\<close> raises FileNotFoundError for a path that
  \<^verbatim>\<open>exists()\<close> reports missing, whatever the reviewer, and returns a result for a path
  reported to exist when the ignore patterns are evaluated without a raise and the file
  is skipped, or is to be analysed and its text can be read and parsed.
  \<open>review_directory\<close> raises NotADirectoryError exactly when the path is reported missing
  or reported to be no directory, and returns a result for a directory reported to exist
  when its files are collected without a raise and the width of a parallel run is
  positive.
\<close>

theorem C8_review_results:
  "(path_exists env p = Some False \<longrightarrow>
      review_file env rv p = Inl (FileNotFoundError (''File not found: '' @ p)))
   \<and> (path_exists env p = Some True
       \<and> (should_analyze_file env (config rv) p = Inr False
           \<or> (should_analyze_file env (config rv) p = Inr True \<and> readable env p)) \<longrightarrow>
      (\<exists>r. review_file env rv p = Inr r))
   \<and> ((\<exists>m. review_directory env rv d recursive parallel max_workers = Inl (NotADirectoryError m))
        = (path_exists env d = Some False
           \<or> (path_exists env d = Some True \<and> is_dir env d = Some False)))
   \<and> (path_exists env d = Some True \<and> is_dir env d = Some True
       \<and> (\<exists>fs. collect_files env (config rv) d recursive = Inr fs)
       \<and> (parallel \<longrightarrow> 0 < max_workers) \<longrightarrow>
      (\<exists>r. review_directory env rv d recursive parallel max_workers = Inr r))"
proof -
  have a: "path_exists env p = Some False \<Longrightarrow>
      review_file env rv p = Inl (FileNotFoundError (''File not found: '' @ p))"
    by (simp add: review_file_def)
  have b: "\<exists>r. review_file env rv p = Inr r"
    if ex: "path_exists env p = Some True"
      and rd: "should_analyze_file env (config rv) p = Inr False
           \<or> (should_analyze_file env (config rv) p = Inr True \<and> readable env p)"
  proof (cases "should_analyze_file env (config rv) p = Inr False")
    case True
    with ex show ?thesis by (simp add: review_file_def)
  next
    case False
    with rd have sa: "should_analyze_file env (config rv) p = Inr True"
      and r: "readable env p" by simp_all
    show ?thesis
    proof (cases "read_text env p utf_8")
      case (Inr code)
      with r have "parser_answers env code" by (simp add: readable_def)
      from review_code_returns [OF this] ex sa Inr show ?thesis
        by (simp add: review_file_def)
    next
      case (Inl e)
      with r have e: "e = UnicodeDecodeError"
        by (cases e) (simp_all add: readable_def)
      with r Inl obtain code where l: "read_text env p latin_1 = Inr code"
        and pa: "parser_answers env code"
        by (cases "read_text env p latin_1") (simp_all add: readable_def)
      from review_code_returns [OF pa] ex sa Inl e l show ?thesis
        by (simp add: review_file_def)
    qed
  qed
  have c: "(\<exists>m. review_directory env rv d recursive parallel max_workers = Inl (NotADirectoryError m))
        = (path_exists env d = Some False
           \<or> (path_exists env d = Some True \<and> is_dir env d = Some False))"
    by (auto simp add: review_directory_def process_parallel_def
        split: if_splits sum.splits option.splits bool.splits dest: collect_files_error)
  have e: "path_exists env d = Some True \<and> is_dir env d = Some True
       \<and> (\<exists>fs. collect_files env (config rv) d recursive = Inr fs)
       \<and> (parallel \<longrightarrow> 0 < max_workers) \<longrightarrow>
      (\<exists>r. review_directory env rv d recursive parallel max_workers = Inr r)"
    by (auto simp add: review_directory_def process_parallel_def)
  from a b c e show ?thesis by blast
qed

theorem C8_review_results_witness:
  "path_exists example_env ''gone.py'' = Some False
   \<and> review_file example_env example_reviewer ''gone.py''
       = Inl (FileNotFoundError ''File not found: gone.py'')
   \<and> path_exists example_env ''src/a.py'' = Some True
   \<and> should_analyze_file example_env (config example_reviewer) ''src/a.py'' = Inr True
   \<and> readable example_env ''src/a.py''
   \<and> (\<exists>r. review_file example_env example_reviewer ''src/a.py'' = Inr r)
   \<and> path_exists example_env ''src'' = Some True \<and> is_dir example_env ''src'' = Some True
   \<and> collect_files example_env (config example_reviewer) ''src'' True
       = Inr [''src/a.py'', ''src/b.py'']
   \<and> (\<exists>r. review_directory example_env example_reviewer ''src'' True True 4 = Inr r)
   \<and> is_dir example_env ''src/a.py'' = Some False
   \<and> (\<exists>m. review_directory example_env example_reviewer ''src/a.py'' True True 4
            = Inl (NotADirectoryError m))"
proof -
  have h1: "path_exists example_env ''gone.py'' = Some False"
    by (simp add: example_env_def)
  have h2: "path_exists example_env ''src/a.py'' = Some True" "readable example_env ''src/a.py''"
    by (simp_all add: example_env_def readable_def parser_answers_def)
  have sa: "should_analyze_file example_env (config example_reviewer) ''src/a.py'' = Inr True"
    by code_simp
  have h3: "path_exists example_env ''src'' = Some True" "is_dir example_env ''src'' = Some True"
    "is_dir example_env ''src/a.py'' = Some False"
    by (simp_all add: example_env_def)
  have cf: "collect_files example_env (config example_reviewer) ''src'' True
       = Inr [''src/a.py'', ''src/b.py'']"
    by code_simp
  note t1 = C8_review_results [of example_env "''gone.py''" example_reviewer "''src''" True True 4]
  note t2 = C8_review_results [of example_env "''src/a.py''" example_reviewer "''src/a.py''" True True 4]
  from t1 h1 have r1: "review_file example_env example_reviewer ''gone.py''
       = Inl (FileNotFoundError ''File not found: gone.py'')"
    by simp
  from t2 h2 sa have r2: "\<exists>r. review_file example_env example_reviewer ''src/a.py'' = Inr r"
    by blast
  from t1 h3 cf have r3: "\<exists>r. review_directory example_env example_reviewer ''src'' True True 4 = Inr r"
    by simp
  from t2 h2 h3 have r4: "\<exists>m. review_directory example_env example_reviewer ''src/a.py'' True True 4
            = Inl (NotADirectoryError m)"
    by blast
  from h1 h2 sa h3 cf r1 r2 r3 r4 show ?thesis by blast
qed

section \<open>Reviewing a text\<close>


lemma run_builtin_unparsable:
  assumes "ast_parse env code = Inl SyntaxError"
    and "\<forall>a \<in> set as. \<exists>d. analyze a = analyze_builtin env d"
  shows "run_analyzers cfg as code path None acc = acc"
  using assms(2)
proof (induction as arbitrary: acc)
  case Nil
  show ?case by simp
next
  case (Cons a as)
  then obtain d where "analyze a = analyze_builtin env d" by auto
  then have "analyze a code path None = Inr []"
    using assms(1) by (simp add: analyze_builtin_def parse_code_def)
  with Cons show ?case
    by (simp add: filter_by_severity_def)
qed

lemma setup_analyzers_builtin:
  "\<forall>a \<in> set (setup_analyzers env security_checks smell_checks cfg []).
     \<exists>d. analyze a = analyze_builtin env d"
  by (auto simp add: setup_analyzers_def ComplexityAnalyzer_def SecurityAnalyzer_def
      SmellAnalyzer_def)


text \<open>
  Where the parser raises anything but SyntaxError, \<open>review_code\<close> raises it too: only
  SyntaxError is caught.
\<close>

lemma review_code_parser_raise:
  "ast_parse env code = Inl e \<Longrightarrow> e \<noteq> SyntaxError \<Longrightarrow> review_code env rv code path = Inl e"
  by (cases e) (simp_all add: review_code_def parse_code_def)




section \<open>The snippet of a hard-coded secret\<close>

lemma enumerate1_elem:
  "(i, t) \<in> set (enumerate1 xs) \<Longrightarrow> 1 \<le> i \<and> i \<le> int (length xs) \<and> t = xs ! nat (i - 1)"
  by (auto simp add: enumerate1_def in_set_zip nth_append simp del: upt_Suc)

lemma mask_secret_nonquote:
  "\<not> is_quote c \<Longrightarrow> mask_secret (c # cs) = c # mask_secret cs"
  by (simp add: Let_def)

lemma mask_secret_prefix:
  "\<forall>c \<in> set pre. \<not> is_quote c \<Longrightarrow> mask_secret (pre @ s) = pre @ mask_secret s"
  by (induction pre) (simp_all add: mask_secret_nonquote del: mask_secret.simps)

lemma run_of_literal:
  assumes "is_quote q" and "\<forall>c \<in> set lit. \<not> is_quote c"
  shows "takeWhile (\<lambda>x. \<not> is_quote x) (lit @ q # post) = lit"
    and "dropWhile (\<lambda>x. \<not> is_quote x) (lit @ q # post) = q # post"
  using assms by (simp_all add: takeWhile_tail dropWhile_append3)

lemma mask_secret_literal:
  assumes "is_quote q" and "\<forall>c \<in> set lit. \<not> is_quote c" and "6 \<le> length lit"
  shows "mask_secret (q # lit @ q # post) =
           q # take 4 lit @ ''****'' @ drop (length lit - 2) lit @ q # mask_secret post"
  using assms
  by (simp add: Let_def run_of_literal [OF assms(1,2)] del: mask_secret.simps
      add: mask_secret.simps(2) [of q "lit @ q # post"])

lemma mask_secret_first_literal:
  assumes "is_quote q" and "\<forall>c \<in> set pre. \<not> is_quote c" and "\<forall>c \<in> set lit. \<not> is_quote c"
    and "6 \<le> length lit"
  shows "mask_secret (pre @ q # lit @ q # post) =
           pre @ q # take 4 lit @ ''****'' @ drop (length lit - 2) lit @ q # mask_secret post"
  using assms by (simp add: mask_secret_prefix mask_secret_literal del: mask_secret.simps)

text \<open>
  The claim as stated fails on three reported lines. For \<^verbatim>\<open>password = "secret123"\<close> the
  snippet keeps the first four characters of the literal and puts four asterisks, where
  two kept characters and five asterisks are claimed. For
  \<^verbatim>\<open>connect(user="admin", password="hunter2hunter2")\<close> the snippet masks the text between
  the two literals and shows the secret as it is. For \<^verbatim>\<open>password = "abc12"\<close> the snippet is
  the line itself.
\<close>

theorem C6_snippet_keeps_four:
  "map icode (check_hardcoded_secrets secret_line ''app.py'')
     = [''password = '' @ [CHR 0x22] @ ''secr****23'' @ [CHR 0x22]]
   \<and> ''password = '' @ [CHR 0x22] @ spec_mask_literal ''secret123'' @ [CHR 0x22]
     = ''password = '' @ [CHR 0x22] @ ''se*****23'' @ [CHR 0x22]
   \<and> map icode (check_hardcoded_secrets secret_line ''app.py'')
     \<noteq> [''password = '' @ [CHR 0x22] @ spec_mask_literal ''secret123'' @ [CHR 0x22]]
   \<and> map icode (check_hardcoded_secrets connect_line ''app.py'')
     = [''connect(user='' @ [CHR 0x22] @ ''admin'' @ [CHR 0x22] @ '', pa****d=''
        @ [CHR 0x22] @ ''hunter2hunter2'' @ [CHR 0x22] @ '')'']
   \<and> map icode (check_hardcoded_secrets short_line ''app.py'') = [short_line]"
  by code_simp

text \<open>
  C6, as the code has it. Every hard-coded-secret issue carries the stripped text of its
  line after \<open>mask_secret\<close>. Where that text begins with no quote before the quoted
  literal, and the literal stands between two equal quotes, has no quote inside and has
  six characters or more, the snippet keeps the first four and the last two characters
  of the literal around four asterisks (and goes on masking behind the literal).
\<close>

theorem C6_snippet_masked:
  "\<forall>issue \<in> set (check_hardcoded_secrets code file_path).
     itype issue = ''hardcoded_secret''
     \<and> 1 \<le> line issue \<and> line issue \<le> int (length (split_lines code))
     \<and> icode issue = mask_secret (strip (split_lines code ! nat (line issue - 1)))
     \<and> (\<forall>pre q lit post.
           strip (split_lines code ! nat (line issue - 1)) = pre @ q # lit @ q # post
           \<and> is_quote q \<and> (\<forall>c \<in> set pre. \<not> is_quote c) \<and> (\<forall>c \<in> set lit. \<not> is_quote c)
           \<and> 6 \<le> length lit \<longrightarrow>
           icode issue =
             pre @ q # take 4 lit @ ''****'' @ drop (length lit - 2) lit @ q # mask_secret post)"
proof
  fix issue
  assume "issue \<in> set (check_hardcoded_secrets code file_path)"
  then obtain i t d where e: "(i, t) \<in> set (enumerate1 (split_lines code))"
    and iss: "issue = secret_issue file_path i t d"
    by (auto simp add: check_hardcoded_secrets_def split: if_splits option.splits)
  from enumerate1_elem [OF e] iss
  have a: "itype issue = ''hardcoded_secret''
     \<and> 1 \<le> line issue \<and> line issue \<le> int (length (split_lines code))
     \<and> icode issue = mask_secret (strip (split_lines code ! nat (line issue - 1)))"
    by (simp add: secret_issue_def Issue_default_def)
  then have "icode issue =
      pre @ q # take 4 lit @ ''****'' @ drop (length lit - 2) lit @ q # mask_secret post"
    if "strip (split_lines code ! nat (line issue - 1)) = pre @ q # lit @ q # post"
      "is_quote q" "\<forall>c \<in> set pre. \<not> is_quote c" "\<forall>c \<in> set lit. \<not> is_quote c"
      "6 \<le> length lit" for pre q lit post
    using that by (simp add: mask_secret_first_literal del: mask_secret.simps)
  with a show "itype issue = ''hardcoded_secret''
     \<and> 1 \<le> line issue \<and> line issue \<le> int (length (split_lines code))
     \<and> icode issue = mask_secret (strip (split_lines code ! nat (line issue - 1)))
     \<and> (\<forall>pre q lit post.
           strip (split_lines code ! nat (line issue - 1)) = pre @ q # lit @ q # post
           \<and> is_quote q \<and> (\<forall>c \<in> set pre. \<not> is_quote c) \<and> (\<forall>c \<in> set lit. \<not> is_quote c)
           \<and> 6 \<le> length lit \<longrightarrow>
           icode issue =
             pre @ q # take 4 lit @ ''****'' @ drop (length lit - 2) lit @ q # mask_secret post)"
    by blast
qed

theorem C6_snippet_masked_witness:
  "check_hardcoded_secrets secret_line ''app.py''
     = [secret_issue ''app.py'' 1 secret_line ''hardcoded password'']
   \<and> strip (split_lines secret_line ! nat (1 - 1))
     = ''password = '' @ CHR 0x22 # ''secret123'' @ CHR 0x22 # []
   \<and> is_quote (CHR 0x22)
   \<and> icode (secret_issue ''app.py'' 1 secret_line ''hardcoded password'')
     = ''password = '' @ [CHR 0x22] @ ''secr****23'' @ [CHR 0x22]"
proof -
  let ?issue = "secret_issue ''app.py'' 1 secret_line ''hardcoded password''"
  have n: "check_hardcoded_secrets secret_line ''app.py'' = [?issue]"
    by code_simp
  have l: "line ?issue = 1"
    by (simp add: secret_issue_def Issue_default_def)
  have s: "strip (split_lines secret_line ! nat (1 - 1))
     = ''password = '' @ CHR 0x22 # ''secret123'' @ CHR 0x22 # []"
    by code_simp
  have h: "is_quote (CHR 0x22)" "\<forall>c \<in> set ''password = ''. \<not> is_quote c"
    "\<forall>c \<in> set ''secret123''. \<not> is_quote c" "6 \<le> length ''secret123''"
    by (simp_all add: is_quote_def)
  have "?issue \<in> set (check_hardcoded_secrets secret_line ''app.py'')"
    by (simp add: n)
  with C6_snippet_masked [of secret_line "''app.py''"]
  have "\<forall>pre q lit post.
           strip (split_lines secret_line ! nat (line ?issue - 1)) = pre @ q # lit @ q # post
           \<and> is_quote q \<and> (\<forall>c \<in> set pre. \<not> is_quote c) \<and> (\<forall>c \<in> set lit. \<not> is_quote c)
           \<and> 6 \<le> length lit \<longrightarrow>
           icode ?issue =
             pre @ q # take 4 lit @ ''****'' @ drop (length lit - 2) lit @ q # mask_secret post"
    by blast
  with s h l have "icode ?issue =
      ''password = '' @ CHR 0x22 # take 4 ''secret123'' @ ''****''
        @ drop (length ''secret123'' - 2) ''secret123'' @ CHR 0x22 # mask_secret []"
    by (simp only:)
  then have m: "icode ?issue = ''password = '' @ [CHR 0x22] @ ''secr****23'' @ [CHR 0x22]"
    by (simp del: mask_secret.simps(2))
  from n s h(1) m show ?thesis by blast
qed

section \<open>Aggregation and the order of the file results\<close>

lemma count_by_fold:
  assumes f: "\<And>issue d. f issue d
                = d(key issue \<mapsto> (case d (key issue) of None \<Rightarrow> 0 | Some n \<Rightarrow> n) + 1)"
  shows "fold f xs d k =
     (if k \<in> key ` set xs
      then Some ((case d k of None \<Rightarrow> 0 | Some n \<Rightarrow> n)
                 + int (length (filter (\<lambda>i. key i = k) xs)))
      else d k)"
proof (induction xs arbitrary: d)
  case Nil
  show ?case by simp
next
  case (Cons x xs)
  have "fold f (x # xs) d k = fold f xs (f x d) k"
    by simp
  also have "\<dots> = (if k \<in> key ` set xs
      then Some ((case f x d k of None \<Rightarrow> 0 | Some n \<Rightarrow> n)
                 + int (length (filter (\<lambda>i. key i = k) xs)))
      else f x d k)"
    by (rule Cons.IH)
  also have "\<dots> = (if k \<in> key ` set (x # xs)
      then Some ((case d k of None \<Rightarrow> 0 | Some n \<Rightarrow> n)
                 + int (length (filter (\<lambda>i. key i = k) (x # xs))))
      else d k)"
    by (auto simp add: f filter_empty_conv image_iff split: option.splits)
  finally show ?case .
qed

lemma count_by_apply:
  "count_by key xs k =
     (if k \<in> key ` set xs then Some (int (length (filter (\<lambda>i. key i = k) xs))) else None)"
  unfolding count_by_def
  by (subst count_by_fold [where key = key]) simp_all

lemma length_filter_mset:
  assumes "mset xs = mset ys"
  shows "length (filter P xs) = length (filter P ys)"
proof -
  have "length (filter P xs) = size (filter_mset P (mset xs))"
    by (simp flip: mset_filter)
  also have "\<dots> = size (filter_mset P (mset ys))"
    by (simp add: assms)
  also have "\<dots> = length (filter P ys)"
    by (simp flip: mset_filter)
  finally show ?thesis .
qed

lemma count_by_mset:
  assumes "mset xs = mset ys"
  shows "count_by key xs = count_by key ys"
proof
  fix k
  have "set xs = set ys"
    using assms by (rule mset_eq_setD)
  then show "count_by key xs k = count_by key ys k"
    by (simp add: count_by_apply length_filter_mset [OF assms])
qed

lemma mset_concat_map:
  assumes "mset xs = mset ys"
  shows "mset (concat (map f (filter P xs))) = mset (concat (map f (filter P ys)))"
proof -
  have "mset (concat (map f (filter P zs)))
      = sum_mset (image_mset (\<lambda>z. mset (f z)) (filter_mset P (mset zs)))" for zs
    by (simp add: mset_concat comp_def flip: sum_mset_sum_list)
  then show ?thesis
    by (simp add: assms)
qed

lemma by_file_fold:
  assumes g: "\<And>result d. g result d = d(rfile result \<mapsto> issues result)"
  shows "fold g xs d0 = d0 ++ map_of (rev (map (\<lambda>result. (rfile result, issues result)) xs))"
proof (induction xs arbitrary: d0)
  case Nil
  show ?case by simp
next
  case (Cons x xs)
  have "fold g (x # xs) d0 = fold g xs (g x d0)"
    by simp
  also have "\<dots> = g x d0 ++ map_of (rev (map (\<lambda>result. (rfile result, issues result)) xs))"
    by (rule Cons.IH)
  also have "\<dots> = d0(rfile x \<mapsto> issues x)
                     ++ map_of (rev (map (\<lambda>result. (rfile result, issues result)) xs))"
    by (simp only: g)
  also have "\<dots> = d0 ++ map_of (rev (map (\<lambda>result. (rfile result, issues result)) (x # xs)))"
    by simp
  finally show ?case .
qed

lemma by_file_mset:
  assumes "mset xs = mset ys" and "distinct (map rfile xs)"
  shows "fold (\<lambda>result d. d(rfile result \<mapsto> issues result)) xs Map.empty
       = fold (\<lambda>result d. d(rfile result \<mapsto> issues result)) ys Map.empty"
proof -
  let ?p = "\<lambda>result. (rfile result, issues result)"
  have m: "mset (map rfile xs) = mset (map rfile ys)"
    using assms(1) by simp
  have dy: "distinct (map rfile ys)"
    using mset_eq_imp_distinct_iff [OF m] assms(2) by simp
  have s: "set xs = set ys"
    using assms(1) by (rule mset_eq_setD)
  have "map_of (rev (map ?p xs)) = map_of (rev (map ?p ys))"
  proof (rule map_of_inject_set [THEN iffD2])
    show "distinct (map fst (rev (map ?p xs)))"
      using assms(2) by (simp add: comp_def flip: rev_map)
    show "distinct (map fst (rev (map ?p ys)))"
      using dy by (simp add: comp_def flip: rev_map)
    show "set (rev (map ?p xs)) = set (rev (map ?p ys))"
      using s by simp
  qed
  then show ?thesis
    by (simp add: by_file_fold [OF refl])
qed

lemma process_sequential_concat:
  "process_sequential env rv fs =
     concat (map (\<lambda>f. case review_file env rv f of Inr r \<Rightarrow> [r] | Inl e \<Rightarrow> []) fs)"
  by (induction fs) (simp_all split: sum.splits)

lemma review_file_rfile:
  "review_file env rv p = Inr r \<Longrightarrow> rfile r = p"
  by (auto simp add: review_file_def review_code_def
      split: if_splits sum.splits error.splits bool.splits option.splits)

lemma process_sequential_names:
  "map rfile (process_sequential env rv fs)
     = filter (\<lambda>f. \<exists>r. review_file env rv f = Inr r) fs"
  by (induction fs) (auto split: sum.splits dest: review_file_rfile)

text \<open>
  Why the file names of the results must differ for the per-file issues: of two results
  with one name the later one replaces the earlier one.
\<close>

lemma same_name_later_result_wins:
  "issues_by_file (aggregate_results env [result_a, result_a_again]) ''a.py'' = Some []
   \<and> issues_by_file (aggregate_results env [result_a_again, result_a]) ''a.py''
       = Some [example_issue]"
  by (simp add: aggregate_results_def Let_def result_a_def result_a_again_def)

lemma process_sequential_example:
  "process_sequential example_env example_reviewer [''src/a.py'', ''src/b.py'']
     = [\<lparr>rfile = ''src/a.py'', issues = [],
         metrics = Some (calculate_metrics example_env ''def f(:'' None),
         skipped = False, error = None\<rparr>]"
proof -
  have cfg: "config example_reviewer = Config_default"
    by (simp add: example_reviewer_def Reviewer_init_def)
  have sa: "should_analyze_file example_env Config_default ''src/a.py'' = Inr True"
    "should_analyze_file example_env Config_default ''src/b.py'' = Inr True"
    by code_simp+
  have rd: "read_text example_env ''src/a.py'' utf_8 = Inr ''def f(:''"
    "read_text example_env ''src/b.py'' utf_8 = Inl OSError"
    "path_exists example_env ''src/a.py'' = Some True"
    "path_exists example_env ''src/b.py'' = Some True"
    "ast_parse example_env ''def f(:'' = Inl SyntaxError"
    by (simp_all add: example_env_def)
  have i: "run_analyzers Config_default (analyzers_list example_reviewer)
             ''def f(:'' ''src/a.py'' None [] = []"
    unfolding example_reviewer_def Reviewer_init_def Reviewer.simps
    by (rule run_builtin_unparsable [OF rd(5) setup_analyzers_builtin])
  have a: "review_file example_env example_reviewer ''src/a.py''
      = Inr \<lparr>rfile = ''src/a.py'', issues = [],
              metrics = Some (calculate_metrics example_env ''def f(:'' None),
              skipped = False, error = None\<rparr>"
    by (simp add: review_file_def cfg sa rd review_code_def parse_code_def i)
  have b: "review_file example_env example_reviewer ''src/b.py'' = Inl OSError"
    by (simp add: review_file_def cfg sa rd)
  show ?thesis
    by (simp add: a b)
qed

text \<open>
  The claim as stated fails for a width that is not positive: over the two files of
  \<^verbatim>\<open>src\<close>, the parallel review with \<^verbatim>\<open>max_workers=0\<close> raises ValueError where the sequential
  review returns its result, with no issue in total.
\<close>

theorem C3_parallel_width_zero_raises:
  "review_directory example_env example_reviewer ''src'' True True 0
     = Inl (ValueError ''max_workers must be greater than 0'')
   \<and> map_sum id total_issues (review_directory example_env example_reviewer ''src'' True False 0)
     = Inr 0
   \<and> map_sum id four_fields (review_directory example_env example_reviewer ''src'' True True 0)
     \<noteq> map_sum id four_fields (review_directory example_env example_reviewer ''src'' True False 0)"
proof -
  have cf: "collect_files example_env (config example_reviewer) ''src'' True
      = Inr [''src/a.py'', ''src/b.py'']"
    by code_simp
  have g: "path_exists example_env ''src'' = Some True" "is_dir example_env ''src'' = Some True"
    by (simp_all add: example_env_def)
  have p: "review_directory example_env example_reviewer ''src'' True True 0
     = Inl (ValueError ''max_workers must be greater than 0'')"
    by (simp add: review_directory_def g cf process_parallel_def)
  have q: "review_directory example_env example_reviewer ''src'' True False 0
     = Inr (aggregate_results example_env
              (process_sequential example_env example_reviewer [''src/a.py'', ''src/b.py'']))"
    by (simp add: review_directory_def g cf)
  have t: "map_sum id total_issues (review_directory example_env example_reviewer ''src'' True False 0)
     = Inr 0"
    unfolding q process_sequential_example
    by (simp add: aggregate_results_def Let_def)
  from p q t show ?thesis by simp
qed

text \<open>
  C3, as the code has it. For two lists of file results that are permutations of each
  other, \<open>aggregate_results\<close> gives the same total, the same counts by severity and the
  same counts by type, and the same per-file issues when the results that are not skipped
  are of distinct files. A directory review run in parallel with a positive width and run
  sequentially agree on the four fields (or raise alike), when the pool completes each
  submitted file once and the collected files are distinct.
\<close>

theorem C3_aggregate_order:
  assumes "mset frs' = mset frs"
  shows "total_issues (aggregate_results env frs') = total_issues (aggregate_results env frs)
   \<and> issues_by_severity (aggregate_results env frs') = issues_by_severity (aggregate_results env frs)
   \<and> issues_by_type (aggregate_results env frs') = issues_by_type (aggregate_results env frs)
   \<and> (distinct (map rfile (filter (\<lambda>result. \<not> skipped result) frs)) \<longrightarrow>
        issues_by_file (aggregate_results env frs') = issues_by_file (aggregate_results env frs))
   \<and> ((\<forall>fs. collect_files env (config rv) d recursive = Inr fs \<longrightarrow>
              mset (completed env fs) = mset fs \<and> distinct fs)
        \<and> 0 < max_workers \<longrightarrow>
        map_sum id four_fields (review_directory env rv d recursive True max_workers)
          = map_sum id four_fields (review_directory env rv d recursive False max_workers))"
proof -
  have fields: "total_issues (aggregate_results env ys) = total_issues (aggregate_results env xs)
     \<and> issues_by_severity (aggregate_results env ys) = issues_by_severity (aggregate_results env xs)
     \<and> issues_by_type (aggregate_results env ys) = issues_by_type (aggregate_results env xs)
     \<and> (distinct (map rfile (filter (\<lambda>result. \<not> skipped result) xs)) \<longrightarrow>
          issues_by_file (aggregate_results env ys) = issues_by_file (aggregate_results env xs))"
    if p: "mset ys = mset xs" for xs ys :: "FileResult list"
  proof -
    let ?ns = "\<lambda>result::FileResult. \<not> skipped result"
    have i: "mset (concat (map issues (filter ?ns ys))) = mset (concat (map issues (filter ?ns xs)))"
      using p by (rule mset_concat_map)
    have t: "length (concat (map issues (filter ?ns ys))) = length (concat (map issues (filter ?ns xs)))"
      using i by (rule mset_eq_length)
    have v: "mset (filter ?ns xs) = mset (filter ?ns ys)"
      using p by simp
    have f: "distinct (map rfile (filter ?ns xs)) \<Longrightarrow>
        fold (\<lambda>result d. d(rfile result \<mapsto> issues result)) (filter ?ns ys) Map.empty
        = fold (\<lambda>result d. d(rfile result \<mapsto> issues result)) (filter ?ns xs) Map.empty"
      using by_file_mset [OF v] by simp
    show ?thesis
      using t f by (simp add: aggregate_results_def Let_def count_by_mset [OF i])
  qed
  have dir: "map_sum id four_fields (review_directory env rv d recursive True max_workers)
          = map_sum id four_fields (review_directory env rv d recursive False max_workers)"
    if h: "\<forall>fs. collect_files env (config rv) d recursive = Inr fs \<longrightarrow>
              mset (completed env fs) = mset fs \<and> distinct fs"
      and w: "0 < max_workers"
  proof (cases "collect_files env (config rv) d recursive")
    case (Inl e)
    then show ?thesis
      by (simp add: review_directory_def split: option.splits bool.splits)
  next
    case (Inr fs)
    note cf = Inr
    from h cf have c: "mset (completed env fs) = mset fs" and dist: "distinct fs"
      by simp_all
    let ?par = "process_sequential env rv (completed env fs)"
    let ?seq = "process_sequential env rv fs"
    have p: "mset ?par = mset ?seq"
      using c by (simp add: process_sequential_concat mset_concat comp_def
          flip: sum_mset_sum_list)
    have "distinct (map rfile ?seq)"
      using dist by (simp add: process_sequential_names)
    then have "distinct (map rfile (filter (\<lambda>result. \<not> skipped result) ?seq))"
      by (simp add: distinct_map_filter)
    with fields [OF p] have "four_fields (aggregate_results env ?par)
        = four_fields (aggregate_results env ?seq)"
      by (simp add: four_fields_def)
    then show ?thesis
      using w by (simp add: review_directory_def process_parallel_def cf
          split: option.splits bool.splits)
  qed
  from fields [OF assms] dir show ?thesis by blast
qed

theorem C3_aggregate_order_witness:
  "mset [result_b, result_a] = mset [result_a, result_b]
   \<and> distinct (map rfile (filter (\<lambda>result. \<not> skipped result) [result_a, result_b]))
   \<and> four_fields (aggregate_results example_env [result_b, result_a])
       = four_fields (aggregate_results example_env [result_a, result_b])
   \<and> collect_files example_env (config example_reviewer) ''src'' True
       = Inr [''src/a.py'', ''src/b.py'']
   \<and> mset (completed example_env [''src/a.py'', ''src/b.py'']) = mset [''src/a.py'', ''src/b.py'']
   \<and> distinct [''src/a.py'', ''src/b.py'']
   \<and> map_sum id four_fields (review_directory example_env example_reviewer ''src'' True True 4)
       = map_sum id four_fields (review_directory example_env example_reviewer ''src'' True False 4)"
proof -
  have h1: "mset [result_b, result_a] = mset [result_a, result_b]"
    by (simp add: add.commute)
  have h2: "distinct (map rfile (filter (\<lambda>result. \<not> skipped result) [result_a, result_b]))"
    by (simp add: result_a_def result_b_def)
  have cf: "collect_files example_env (config example_reviewer) ''src'' True
      = Inr [''src/a.py'', ''src/b.py'']"
    by code_simp
  have h3: "mset (completed example_env [''src/a.py'', ''src/b.py''])
       = mset [''src/a.py'', ''src/b.py'']"
    by (simp add: example_env_def add.commute)
  have h4: "distinct [''src/a.py'', ''src/b.py'']"
    by simp
  note t = C3_aggregate_order [OF h1, of example_env example_reviewer "''src''" True 4]
  from t h2 have r1: "four_fields (aggregate_results example_env [result_b, result_a])
       = four_fields (aggregate_results example_env [result_a, result_b])"
    by (simp add: four_fields_def)
  from cf h3 h4 have "\<forall>fs. collect_files example_env (config example_reviewer) ''src'' True = Inr fs \<longrightarrow>
              mset (completed example_env fs) = mset fs \<and> distinct fs"
    by simp
  with t have r2:
    "map_sum id four_fields (review_directory example_env example_reviewer ''src'' True True 4)
       = map_sum id four_fields (review_directory example_env example_reviewer ''src'' True False 4)"
    by simp
  from h1 h2 cf h3 h4 r1 r2 show ?thesis by blast
qed

end
